theory Spec2Isabelle
  imports Main
begin

section \<open>The ModActions plugin: data\<close>

text \<open>
  The embedding follows \<^verbatim>\<open>src/plugins/ModActions.ts\<close>. The plugin object's only
  mutable field is \<open>ignoredEvents\<close>; everything else it does is a call on a collaborator
  (the case store, the server log, the chat platform). The state of the model is the
  ledger together with the chronological trace of those outbound calls, so that "a case
  was created", "a ban was issued" and "this happened before that" are all facts about
  the trace.
\<close>

datatype IgnoredEventType = IgnoredBan | IgnoredUnban | IgnoredKick

record IIgnoredEvent =
  ignored_type :: IgnoredEventType
  ignored_userId :: string

datatype CaseTypes = Ban | Unban | Note | Warn | Kick | Mute | Unmute | Softban

datatype LogType =
  MEMBER_WARN | MEMBER_MUTE | MEMBER_KICK | MEMBER_BAN | MEMBER_UNBAN | MEMBER_SOFTBAN
| MEMBER_FORCEBAN | MEMBER_ROLE_ADD | MASSBAN

datatype AuditLogActions = MEMBER_KICK_ACTION | MEMBER_BAN_ADD | MEMBER_BAN_REMOVE

record User =
  user_id :: string
  username :: string
  discriminator :: string

text \<open>A guild member; \<open>member.id\<close> of the source is the id of \<open>member.user\<close>.\<close>

record Member =
  user :: User

definition member_id :: "Member \<Rightarrow> string" where
  "member_id m = user_id (user m)"

record Message =
  author :: User
  msg_member :: Member

record AuditLogEntry =
  entry_id :: string
  entry_user :: User
  entry_reason :: "string option"

text \<open>The \<open>Mute\<close> entity returned by the "mute" action; only \<open>case_id\<close> is read.\<close>

record MuteEntity =
  case_id :: "nat option"

text \<open>
  The object handed to \<open>actions.fire("createCase", ...)\<close>. A property the call site
  leaves out is \<open>None\<close>.
\<close>

record case_args =
  userId :: string
  modId :: "string option"
  ctype :: CaseTypes
  auditLogId :: "string option"
  reason :: "string option"
  automatic :: "bool option"
  postInCaseLog :: "bool option"

datatype log_payload =
  ModAndMember User Member
| ModAndUser User User
| ModAndUserId User string
| ModAndCount User nat

text \<open>The reaction the operator gives to the "log the warning anyway?" prompt.\<close>

datatype Reaction = CheckMark | CrossMark

text \<open>
  Outbound calls, in the order the handlers issue them. \<open>CreateCase\<close> is a
  \<open>createCase\<close> call the case store carried out; \<open>CreateCaseFailed\<close> is one it
  rejected, after which no case exists.
\<close>

datatype effect =
  CreateCase case_args
| CreateCaseFailed case_args
| CreateCaseNote nat string string
| SetCaseId string nat
| FireMute string "nat option"
| ServerLog LogType log_payload
| IgnoreLog LogType string "nat option"
| CreateMessage string
| DeleteMessage string
| WaitForReaction
| WaitForReply
| SendDM string string
| SendChannel string string
| MemberKick string "string option"
| BanMember string "nat option" "string option"
| UnbanMember string
| SetTimeout IgnoredEventType string nat

record state =
  ignoredEvents :: "IIgnoredEvent list"
  trace :: "effect list"

definition emit :: "effect \<Rightarrow> state \<Rightarrow> state" where
  "emit e s = s\<lparr>trace := trace s @ [e]\<rparr>"

subsection \<open>Configuration and collaborators\<close>

record config =
  dm_on_warn :: bool
  dm_on_mute :: bool
  dm_on_kick :: bool
  dm_on_ban :: bool
  message_on_warn :: bool
  message_on_mute :: bool
  message_on_kick :: bool
  message_on_ban :: bool
  message_channel :: "string option"
  warn_message :: string
  mute_message :: string
  timed_mute_message :: string
  kick_message :: string
  ban_message :: string
  mute_role :: "string option"

text \<open>
  Functions the plugin imports from \<open>../utils\<close> and string built-ins of the language;
  their code is not part of the plugin, so they are parameters.
\<close>

record utils =
  convertDelayStringToMS :: "string \<Rightarrow> nat option"
  humanizeDuration :: "nat \<Rightarrow> string"
  formatTemplateString :: "string \<Rightarrow> (string \<times> string option) list \<Rightarrow> string"
  errorMessage :: "string \<Rightarrow> string"
  successMessage :: "string \<Rightarrow> string"
  replace :: "string \<Rightarrow> string \<Rightarrow> string \<Rightarrow> string"
  toLowerCase :: "string \<Rightarrow> string"
  trim :: "string \<Rightarrow> string"

text \<open>
  What the outside world answers: the authority check, the member cache, the audit log,
  whether each platform call goes through, what the "mute" action returns, which id the
  case store gives a new case, whether the case store carries out a \<open>createCase\<close> call
  (read where the source guards that call with \<open>try\<close>, the ban loop of massban), and
  what the operator replies.
\<close>

record env =
  configValue :: config
  util :: utils
  guildName :: string
  canActOn :: "Member \<Rightarrow> Member \<Rightarrow> bool"
  members_get :: "string \<Rightarrow> Member option"
  findRelevantAuditLogEntry :: "AuditLogActions \<Rightarrow> string \<Rightarrow> AuditLogEntry option"
  dm_delivered :: "string \<Rightarrow> string \<Rightarrow> bool"
  channel_delivered :: "string \<Rightarrow> string \<Rightarrow> bool"
  kick_succeeds :: "string \<Rightarrow> bool"
  ban_succeeds :: "string \<Rightarrow> bool"
  unban_succeeds :: "string \<Rightarrow> bool"
  mute_result :: "Member \<Rightarrow> nat option \<Rightarrow> MuteEntity option"
  new_case_id :: "case_args \<Rightarrow> nat"
  createCase_succeeds :: "case_args \<Rightarrow> bool"
  reaction :: "Reaction option"
  reply_content :: "string option"

text \<open>Truthiness of an optional string: \<open>undefined\<close>, \<open>null\<close> and \<open>""\<close> are falsy.\<close>

fun truthy :: "string option \<Rightarrow> bool" where
  "truthy None = False"
| "truthy (Some str) = (str \<noteq> [])"

section \<open>The self-action suppressor\<close>

text \<open>\<open>Array.prototype.findIndex\<close>: the first index whose element satisfies \<open>p\<close>, else -1.\<close>

fun findIndex :: "('a \<Rightarrow> bool) \<Rightarrow> 'a list \<Rightarrow> int" where
  "findIndex p [] = - 1"
| "findIndex p (x # xs) =
     (if p x then 0 else (let i = findIndex p xs in if i < 0 then - 1 else i + 1))"

text \<open>
  \<open>Array.prototype.splice(start, deleteCount)\<close> with no inserted items, returning the
  array as it is afterwards: a negative \<open>start\<close> counts from the end of the array.
\<close>

definition spliceArray :: "'a list \<Rightarrow> int \<Rightarrow> int \<Rightarrow> 'a list" where
  "spliceArray xs start deleteCount =
     (let len = int (length xs);
          actualStart = (if start < 0 then max (len + start) 0 else min start len);
          actualDeleteCount = min (max deleteCount 0) (len - actualStart)
      in take (nat actualStart) xs @ drop (nat (actualStart + actualDeleteCount)) xs)"

definition matches :: "IgnoredEventType \<Rightarrow> string \<Rightarrow> IIgnoredEvent \<Rightarrow> bool" where
  "matches t u info = (t = ignored_type info \<and> u = ignored_userId info)"

text \<open>
  \<open>ignoreEvent\<close> pushes the entry and arms a timer (15 s unless the caller gives a
  truthy timeout); when the timer fires it calls \<open>clearIgnoredEvent\<close> (see
  \<open>timerFires\<close>).
\<close>

definition ignoreEvent :: "IgnoredEventType \<Rightarrow> string \<Rightarrow> nat option \<Rightarrow> state \<Rightarrow> state" where
  "ignoreEvent t u timeout s =
     emit (SetTimeout t u (case timeout of None \<Rightarrow> 1000 * 15
                           | Some ms \<Rightarrow> if ms = 0 then 1000 * 15 else ms))
       (s\<lparr>ignoredEvents := ignoredEvents s @ [\<lparr>ignored_type = t, ignored_userId = u\<rparr>]\<rparr>)"

definition isEventIgnored :: "IgnoredEventType \<Rightarrow> string \<Rightarrow> state \<Rightarrow> bool" where
  "isEventIgnored t u s = list_ex (matches t u) (ignoredEvents s)"

definition clearIgnoredEvent :: "IgnoredEventType \<Rightarrow> string \<Rightarrow> state \<Rightarrow> state" where
  "clearIgnoredEvent t u s =
     s\<lparr>ignoredEvents := spliceArray (ignoredEvents s) (findIndex (matches t u) (ignoredEvents s)) 1\<rparr>"

definition timerFires :: "IgnoredEventType \<Rightarrow> string \<Rightarrow> state \<Rightarrow> state" where
  "timerFires t u s = clearIgnoredEvent t u s"

section \<open>Notification\<close>

text \<open>
  \<open>tryToMessageUser\<close>: each transport call sits in its own \<open>try\<close> with an empty
  \<open>catch\<close>, so a failed call only leaves \<open>messageSent\<close> as it was. \<open>SendDM\<close> and
  \<open>SendChannel\<close> record that the handler entered the respective \<open>try\<close>; an attempt
  that fails before anything is sent (no direct-message channel, or the configured channel
  is not in the guild) is an undelivered attempt.
\<close>

definition tryToMessageUser ::
  "env \<Rightarrow> User \<Rightarrow> string \<Rightarrow> bool \<Rightarrow> bool \<Rightarrow> state \<Rightarrow> bool \<times> state" where
  "tryToMessageUser e usr str useDM useChannel s =
     (if \<not> useDM \<and> \<not> useChannel then (True, s)
      else
        let (sent1, s1) =
              (if useDM
               then (dm_delivered e (user_id usr) str, emit (SendDM (user_id usr) str) s)
               else (False, s))
        in (case message_channel (configValue e) of
              Some ch \<Rightarrow>
                (if useChannel \<and> ch \<noteq> []
                 then
                   (let txt = ''<@!'' @ user_id usr @ ''> '' @ str
                    in (if channel_delivered e ch txt then True else sent1,
                        emit (SendChannel ch txt) s1))
                 else (sent1, s1))
            | None \<Rightarrow> (sent1, s1)))"

section \<open>Externally observed events\<close>

definition onGuildBanAdd :: "env \<Rightarrow> User \<Rightarrow> state \<Rightarrow> state" where
  "onGuildBanAdd e usr s =
     (if isEventIgnored IgnoredBan (user_id usr) s
      then clearIgnoredEvent IgnoredBan (user_id usr) s
      else
        (case findRelevantAuditLogEntry e MEMBER_BAN_ADD (user_id usr) of
           Some relevantAuditLogEntry \<Rightarrow>
             emit (CreateCase
                    \<lparr>userId = user_id usr,
                     modId = Some (user_id (entry_user relevantAuditLogEntry)),
                     ctype = Ban,
                     auditLogId = Some (entry_id relevantAuditLogEntry),
                     reason = entry_reason relevantAuditLogEntry,
                     automatic = Some True,
                     postInCaseLog = None\<rparr>) s
         | None \<Rightarrow>
             emit (CreateCase
                    \<lparr>userId = user_id usr, modId = None, ctype = Ban, auditLogId = None,
                     reason = None, automatic = None, postInCaseLog = None\<rparr>) s))"

definition onGuildBanRemove :: "env \<Rightarrow> User \<Rightarrow> state \<Rightarrow> state" where
  "onGuildBanRemove e usr s =
     (if isEventIgnored IgnoredUnban (user_id usr) s
      then clearIgnoredEvent IgnoredUnban (user_id usr) s
      else
        (case findRelevantAuditLogEntry e MEMBER_BAN_REMOVE (user_id usr) of
           Some relevantAuditLogEntry \<Rightarrow>
             emit (CreateCase
                    \<lparr>userId = user_id usr,
                     modId = Some (user_id (entry_user relevantAuditLogEntry)),
                     ctype = Unban,
                     auditLogId = Some (entry_id relevantAuditLogEntry),
                     reason = None,
                     automatic = Some True,
                     postInCaseLog = None\<rparr>) s
         | None \<Rightarrow>
             emit (CreateCase
                    \<lparr>userId = user_id usr, modId = None, ctype = Unban, auditLogId = None,
                     reason = None, automatic = Some True, postInCaseLog = None\<rparr>) s))"

definition onGuildMemberRemove :: "env \<Rightarrow> Member \<Rightarrow> state \<Rightarrow> state" where
  "onGuildMemberRemove e m s =
     (if isEventIgnored IgnoredKick (member_id m) s
      then clearIgnoredEvent IgnoredKick (member_id m) s
      else
        (case findRelevantAuditLogEntry e MEMBER_KICK_ACTION (member_id m) of
           Some kickAuditLogEntry \<Rightarrow>
             emit (ServerLog MEMBER_KICK (ModAndUser (entry_user kickAuditLogEntry) (user m)))
               (emit (CreateCase
                       \<lparr>userId = member_id m,
                        modId = Some (user_id (entry_user kickAuditLogEntry)),
                        ctype = Kick,
                        auditLogId = Some (entry_id kickAuditLogEntry),
                        reason = entry_reason kickAuditLogEntry,
                        automatic = Some True,
                        postInCaseLog = None\<rparr>) s)
         | None \<Rightarrow> s))"

fun caseOf :: "effect \<Rightarrow> case_args option" where
  "caseOf (CreateCase a) = Some a"
| "caseOf _ = None"

section \<open>Commands\<close>

text \<open>
  Calls the source does not guard with \<open>try\<close> and that are not the platform mutation
  of the command (posting to the operator's channel, the case store, the server log) are
  taken to complete. A platform mutation goes through or is rejected as the environment
  says, and so does a \<open>createCase\<close> call that sits inside a \<open>try\<close>. A rejection of a call the source does not \<open>await\<close> never reaches the handler:
  its continuation runs on.
\<close>

definition userTag :: "User \<Rightarrow> string" where
  "userTag usr = username usr @ ''#'' @ discriminator usr"

definition orEmpty :: "string option \<Rightarrow> string" where
  "orEmpty r = (case r of Some str \<Rightarrow> str | None \<Rightarrow> [])"

subsection \<open>warn\<close>

definition warnCmd_record :: "env \<Rightarrow> Message \<Rightarrow> Member \<Rightarrow> string \<Rightarrow> state \<Rightarrow> state" where
  "warnCmd_record e msg member rsn s =
     (let s1 = emit (CreateCase
                      \<lparr>userId = member_id member, modId = Some (user_id (author msg)),
                       ctype = Warn, auditLogId = None, reason = Some rsn,
                       automatic = None, postInCaseLog = None\<rparr>) s;
          s2 = emit (CreateMessage
                      (successMessage (util e) (''Warned **'' @ userTag (user member) @ ''**''))) s1
      in emit (ServerLog MEMBER_WARN (ModAndMember (user (msg_member msg)) member)) s2)"

definition warnCmd :: "env \<Rightarrow> Message \<Rightarrow> Member \<Rightarrow> string \<Rightarrow> state \<Rightarrow> state" where
  "warnCmd e msg member rsn s =
     (if \<not> canActOn e (msg_member msg) member
      then emit (CreateMessage
                  (errorMessage (util e) ''Cannot warn: insufficient permissions'')) s
      else
        let warnMessage =
              replace (util e)
                (replace (util e) (warn_message (configValue e)) ''{guildName}'' (guildName e))
                ''{reason}'' rsn;
            (messageSent, s1) =
              tryToMessageUser e (user member) warnMessage
                (dm_on_warn (configValue e)) (message_on_warn (configValue e)) s
        in if \<not> messageSent
           then
             (let s2 = emit (CreateMessage
                              ''Failed to message the user. Log the warning anyway?'') s1;
                  s3 = emit WaitForReaction s2;
                  s4 = emit (DeleteMessage
                              ''Failed to message the user. Log the warning anyway?'') s3
              in if reaction e = None \<or> reaction e = Some CrossMark
                 then s4
                 else warnCmd_record e msg member rsn s4)
           else warnCmd_record e msg member rsn s1)"

subsection \<open>mute\<close>

text \<open>
  \<open>muteTime = args.time ? convertDelayStringToMS(args.time) : null\<close>, and the reason
  after the handler has folded an unparsable time into it.
\<close>

definition muteTimeOf :: "env \<Rightarrow> string option \<Rightarrow> nat option" where
  "muteTimeOf e time =
     (case time of
        Some t \<Rightarrow> if t \<noteq> [] then convertDelayStringToMS (util e) t else None
      | None \<Rightarrow> None)"

definition muteReasonOf :: "env \<Rightarrow> string option \<Rightarrow> string option \<Rightarrow> string option" where
  "muteReasonOf e time rsn =
     (case time of
        Some t \<Rightarrow>
          if muteTimeOf e time = None \<and> t \<noteq> []
          then Some (trim (util e) (t @ '' '' @ (if truthy rsn then orEmpty rsn else [])))
          else rsn
      | None \<Rightarrow> rsn)"

text \<open>A number is truthy unless it is 0.\<close>

definition truthyTime :: "nat option \<Rightarrow> bool" where
  "truthyTime mt = (case mt of Some ms \<Rightarrow> ms \<noteq> 0 | None \<Rightarrow> False)"

definition timeUntilUnmuteOf :: "env \<Rightarrow> nat option \<Rightarrow> string option" where
  "timeUntilUnmuteOf e mt =
     (case mt of
        Some ms \<Rightarrow> if ms \<noteq> 0 then Some (humanizeDuration (util e) ms) else None
      | None \<Rightarrow> None)"

definition muteCmd ::
  "env \<Rightarrow> Message \<Rightarrow> Member \<Rightarrow> string option \<Rightarrow> string option \<Rightarrow> state \<Rightarrow> state" where
  "muteCmd e msg member time rsn0 s =
     (if \<not> truthy (mute_role (configValue e))
      then emit (CreateMessage (errorMessage (util e) ''Cannot mute: no mute role specified'')) s
      else if \<not> canActOn e (msg_member msg) member
      then emit (CreateMessage (errorMessage (util e) ''Cannot mute: insufficient permissions'')) s
      else
        let muteTime = muteTimeOf e time;
            timeUntilUnmute = timeUntilUnmuteOf e muteTime;
            rsn = muteReasonOf e time rsn0;
            s1 = emit (IgnoreLog MEMBER_ROLE_ADD (member_id member) None) s;
            s2 = emit (FireMute (member_id member) muteTime) s1
        in (case mute_result e member muteTime of
              None \<Rightarrow> emit (CreateMessage (errorMessage (util e) ''Could not mute the user'')) s2
            | Some mute \<Rightarrow>
                let hasOldCase = (case_id mute \<noteq> None);
                    s3 = (case case_id mute of
                            Some old \<Rightarrow>
                              if truthy rsn
                              then emit (CreateCaseNote old (user_id (author msg)) (orEmpty rsn)) s2
                              else s2
                          | None \<Rightarrow>
                              (let theCase = \<lparr>userId = member_id member,
                                              modId = Some (user_id (author msg)),
                                              ctype = Mute, auditLogId = None, reason = rsn,
                                              automatic = None, postInCaseLog = None\<rparr>
                               in emit (SetCaseId (member_id member) (new_case_id e theCase))
                                    (emit (CreateCase theCase) s2)));
                    (messageSent, s4) =
                      (if truthy rsn \<and> \<not> hasOldCase
                       then tryToMessageUser e (user member)
                              (formatTemplateString (util e)
                                 (if truthyTime muteTime
                                  then timed_mute_message (configValue e)
                                  else mute_message (configValue e))
                                 [(''guildName'', Some (guildName e)), (''reason'', rsn),
                                  (''time'', timeUntilUnmute)])
                              (dm_on_mute (configValue e)) (message_on_mute (configValue e)) s3
                       else (True, s3));
                    response =
                      (if truthyTime muteTime
                       then ''Muted **'' @ userTag (user member) @ ''** for ''
                              @ orEmpty timeUntilUnmute
                       else ''Muted **'' @ userTag (user member) @ ''** indefinitely'')
                      @ (if \<not> messageSent then '' (failed to message user)'' else []);
                    s5 = emit (CreateMessage (successMessage (util e) response)) s4
                in emit (ServerLog MEMBER_MUTE (ModAndMember (user (msg_member msg)) member)) s5))"

subsection \<open>kick and ban\<close>

definition kickCmd :: "env \<Rightarrow> Message \<Rightarrow> Member \<Rightarrow> string option \<Rightarrow> state \<Rightarrow> state" where
  "kickCmd e msg member rsn s =
     (if \<not> canActOn e (msg_member msg) member
      then emit (CreateMessage (errorMessage (util e) ''Cannot kick: insufficient permissions'')) s
      else
        let (messageSent, s1) =
              (if truthy rsn
               then tryToMessageUser e (user member)
                      (formatTemplateString (util e) (kick_message (configValue e))
                         [(''guildName'', Some (guildName e)), (''reason'', rsn)])
                      (dm_on_kick (configValue e)) (message_on_kick (configValue e)) s
               else (True, s));
            s2 = emit (IgnoreLog MEMBER_KICK (member_id member) None) s1;
            s3 = ignoreEvent IgnoredKick (member_id member) None s2;
            s4 = emit (MemberKick (member_id member) rsn) s3;
            s5 = emit (CreateCase
                        \<lparr>userId = member_id member, modId = Some (user_id (author msg)),
                         ctype = Kick, auditLogId = None, reason = rsn,
                         automatic = None, postInCaseLog = None\<rparr>) s4;
            response = ''Kicked **'' @ userTag (user member) @ ''**''
                         @ (if \<not> messageSent then '' (failed to message user)'' else []);
            s6 = emit (CreateMessage (successMessage (util e) response)) s5
        in emit (ServerLog MEMBER_KICK (ModAndUser (user (msg_member msg)) (user member))) s6)"

definition banCmd :: "env \<Rightarrow> Message \<Rightarrow> Member \<Rightarrow> string option \<Rightarrow> state \<Rightarrow> state" where
  "banCmd e msg member rsn s =
     (if \<not> canActOn e (msg_member msg) member
      then emit (CreateMessage (errorMessage (util e) ''Cannot ban: insufficient permissions'')) s
      else
        let (messageSent, s1) =
              (if truthy rsn
               then tryToMessageUser e (user member)
                      (formatTemplateString (util e) (ban_message (configValue e))
                         [(''guildName'', Some (guildName e)), (''reason'', rsn)])
                      (dm_on_ban (configValue e)) (message_on_ban (configValue e)) s
               else (True, s));
            s2 = emit (IgnoreLog MEMBER_BAN (member_id member) None) s1;
            s3 = ignoreEvent IgnoredBan (member_id member) None s2;
            s4 = emit (BanMember (member_id member) (Some 1) rsn) s3;
            s5 = emit (CreateCase
                        \<lparr>userId = member_id member, modId = Some (user_id (author msg)),
                         ctype = Ban, auditLogId = None, reason = rsn,
                         automatic = None, postInCaseLog = None\<rparr>) s4;
            response = ''Banned **'' @ userTag (user member) @ ''**''
                         @ (if \<not> messageSent then '' (failed to message user)'' else []);
            s6 = emit (CreateMessage (successMessage (util e) response)) s5
        in emit (ServerLog MEMBER_BAN (ModAndMember (user (msg_member msg)) member)) s6)"

subsection \<open>softban, unban, forceban\<close>

text \<open>
  \<open>softbanCmd\<close> awaits both platform calls outside any \<open>try\<close>: a rejection leaves the
  handler at that point.
\<close>

datatype completion = Returned | Rejected

definition softbanCmd ::
  "env \<Rightarrow> Message \<Rightarrow> Member \<Rightarrow> string option \<Rightarrow> state \<Rightarrow> completion \<times> state" where
  "softbanCmd e msg member rsn s =
     (if \<not> canActOn e (msg_member msg) member
      then (Returned,
            emit (CreateMessage (errorMessage (util e) ''Cannot ban: insufficient permissions'')) s)
      else
        let s1 = emit (IgnoreLog MEMBER_BAN (member_id member) None) s;
            s2 = emit (IgnoreLog MEMBER_UNBAN (member_id member) None) s1;
            s3 = ignoreEvent IgnoredBan (member_id member) None s2;
            s4 = ignoreEvent IgnoredUnban (member_id member) None s3;
            s5 = emit (BanMember (member_id member) (Some 1) rsn) s4
        in if \<not> ban_succeeds e (member_id member) then (Rejected, s5)
           else
             let s6 = emit (UnbanMember (member_id member)) s5
             in if \<not> unban_succeeds e (member_id member) then (Rejected, s6)
                else
                  let s7 = emit (CreateCase
                                  \<lparr>userId = member_id member,
                                   modId = Some (user_id (author msg)),
                                   ctype = Softban, auditLogId = None, reason = rsn,
                                   automatic = None, postInCaseLog = None\<rparr>) s6;
                      s8 = emit (CreateMessage
                                  (successMessage (util e)
                                     (''Softbanned **'' @ userTag (user member) @ ''**''))) s7
                  in (Returned,
                      emit (ServerLog MEMBER_SOFTBAN
                             (ModAndMember (user (msg_member msg)) member)) s8))"

definition unbanCmd :: "env \<Rightarrow> Message \<Rightarrow> string \<Rightarrow> string option \<Rightarrow> state \<Rightarrow> state" where
  "unbanCmd e msg uid rsn s =
     (let s1 = emit (IgnoreLog MEMBER_UNBAN uid None) s;
          s2 = ignoreEvent IgnoredUnban uid None s1;
          s3 = emit (UnbanMember uid) s2
      in if \<not> unban_succeeds e uid
         then emit (CreateMessage (errorMessage (util e) ''Failed to unban member'')) s3
         else
           let s4 = emit (CreateMessage (successMessage (util e) ''Member unbanned!'')) s3;
               s5 = emit (CreateCase
                           \<lparr>userId = uid, modId = Some (user_id (author msg)),
                            ctype = Unban, auditLogId = None, reason = rsn,
                            automatic = None, postInCaseLog = None\<rparr>) s4
           in emit (ServerLog MEMBER_UNBAN (ModAndUserId (user (msg_member msg)) uid)) s5)"

text \<open>\<open>member && !this.canActOn(msg.member, member)\<close> for a user id of the guild.\<close>

definition cannotActOnId :: "env \<Rightarrow> Message \<Rightarrow> string \<Rightarrow> bool" where
  "cannotActOnId e msg uid =
     (case members_get e uid of
        Some member \<Rightarrow> \<not> canActOn e (msg_member msg) member
      | None \<Rightarrow> False)"

definition forcebanCmd :: "env \<Rightarrow> Message \<Rightarrow> string \<Rightarrow> string option \<Rightarrow> state \<Rightarrow> state" where
  "forcebanCmd e msg uid rsn s =
     (if cannotActOnId e msg uid
      then emit (CreateMessage
                  (errorMessage (util e) ''Cannot forceban this user: insufficient permissions'')) s
      else
        let s1 = ignoreEvent IgnoredBan uid None s;
            s2 = emit (IgnoreLog MEMBER_BAN uid None) s1;
            s3 = emit (BanMember uid (Some 1) rsn) s2
        in if \<not> ban_succeeds e uid
           then emit (CreateMessage (errorMessage (util e) ''Failed to forceban member'')) s3
           else
             let s4 = emit (CreateMessage (successMessage (util e) ''Member forcebanned!'')) s3;
                 s5 = emit (CreateCase
                             \<lparr>userId = uid, modId = Some (user_id (author msg)),
                              ctype = Ban, auditLogId = None, reason = rsn,
                              automatic = None, postInCaseLog = None\<rparr>) s4
             in emit (ServerLog MEMBER_FORCEBAN (ModAndUserId (user (msg_member msg)) uid)) s5)"

subsection \<open>massban\<close>

text \<open>A number as a template literal prints it: its decimal digits.\<close>

definition digitChar :: "nat \<Rightarrow> char" where
  "digitChar d = char_of (d + 48)"

fun decimal :: "nat \<Rightarrow> string" where
  "decimal n =
     (case n div 10 of
        0 \<Rightarrow> [digitChar n]
      | Suc q \<Rightarrow> decimal (Suc q) @ [digitChar (n mod 10)])"

text \<open>\<open>Array.prototype.join\<close>.\<close>

fun join :: "string \<Rightarrow> string list \<Rightarrow> string" where
  "join sep [] = []"
| "join sep [x] = x"
| "join sep (x # y # ys) = x @ sep @ join sep (y # ys)"

text \<open>The pre-check loop: it returns from the handler at the first target it may not act on.\<close>

fun verifyAll :: "env \<Rightarrow> Message \<Rightarrow> string list \<Rightarrow> bool" where
  "verifyAll e msg [] = True"
| "verifyAll e msg (uid # rest) =
     (if cannotActOnId e msg uid then False else verifyAll e msg rest)"

text \<open>The \<open>forEach\<close> that registers the suppressions, 120 s each.\<close>

fun ignoreAll :: "string list \<Rightarrow> state \<Rightarrow> state" where
  "ignoreAll [] s = s"
| "ignoreAll (uid # rest) s =
     ignoreAll rest
       (emit (IgnoreLog MEMBER_BAN uid (Some (120 * 1000)))
          (ignoreEvent IgnoredBan uid (Some (120 * 1000)) s))"

text \<open>
  The ban loop: the \<open>try\<close> holds the ban and the \<open>createCase\<close> call; the
  \<open>catch\<close> pushes the id on \<open>failedBans\<close> and the loop goes on. The \<open>catch\<close> is
  reached when the ban is rejected (\<open>createCase\<close> is then never called) and when the ban
  went through and the case store rejects the call.
\<close>

fun banEach ::
  "env \<Rightarrow> Message \<Rightarrow> string \<Rightarrow> string list \<Rightarrow> string list \<Rightarrow> state \<Rightarrow> string list \<times> state" where
  "banEach e msg banReason [] failedBans s = (failedBans, s)"
| "banEach e msg banReason (uid # rest) failedBans s =
     (let s1 = emit (BanMember uid None None) s
      in if ban_succeeds e uid
         then
           (let theCase = \<lparr>userId = uid, modId = Some (user_id (author msg)), ctype = Ban,
                           auditLogId = None, reason = Some (''Mass ban: '' @ banReason),
                           automatic = None, postInCaseLog = Some False\<rparr>
            in if createCase_succeeds e theCase
               then banEach e msg banReason rest failedBans (emit (CreateCase theCase) s1)
               else banEach e msg banReason rest (failedBans @ [uid])
                      (emit (CreateCaseFailed theCase) s1))
         else banEach e msg banReason rest (failedBans @ [uid]) s1)"

definition massbanCmd :: "env \<Rightarrow> Message \<Rightarrow> string list \<Rightarrow> state \<Rightarrow> state" where
  "massbanCmd e msg userIds s =
     (if length userIds > 100
      then emit (CreateMessage (errorMessage (util e) ''Can only massban max 100 users at once'')) s
      else
        let s1 = emit (CreateMessage ''Ban reason? `cancel` to cancel'') s;
            s2 = emit WaitForReply s1
        in if \<not> truthy (reply_content e)
              \<or> trim (util e) (toLowerCase (util e) (orEmpty (reply_content e))) = ''cancel''
           then emit (CreateMessage ''Cancelled'') s2
           else
             let banReason = orEmpty (reply_content e)
             in if \<not> verifyAll e msg userIds
                then emit (CreateMessage
                            (errorMessage (util e)
                               ''Cannot massban one or more users: insufficient permissions'')) s2
                else
                  let s3 = ignoreAll userIds s2;
                      s4 = emit (CreateMessage ''Banning...'') s3;
                      (failedBans, s5) = banEach e msg banReason userIds [] s4;
                      s6 = emit (DeleteMessage ''Banning...'') s5;
                      successfulBanCount = length userIds - length failedBans
                  in if successfulBanCount = 0
                     then emit (CreateMessage
                                 (errorMessage (util e)
                                    ''All bans failed. Make sure the IDs are valid.'')) s6
                     else
                       let s7 = emit (ServerLog MASSBAN
                                       (ModAndCount (author msg) successfulBanCount)) s6
                       in if failedBans \<noteq> []
                          then emit (CreateMessage
                                      (successMessage (util e)
                                         (''Banned '' @ decimal successfulBanCount
                                            @ '' users, '' @ decimal (length failedBans)
                                            @ '' failed: '' @ join '' '' failedBans))) s7
                          else emit (CreateMessage
                                      (successMessage (util e)
                                         (''Banned '' @ decimal successfulBanCount
                                            @ '' users successfully''))) s7)"

section \<open>Reading the trace\<close>

text \<open>The part of the trace a handler added to the state it started from.\<close>

definition emitted :: "state \<Rightarrow> state \<Rightarrow> effect list" where
  "emitted s s' = drop (length (trace s)) (trace s')"

definition casesIn :: "effect list \<Rightarrow> case_args list" where
  "casesIn es = List.map_filter caseOf es"

fun is_notification :: "effect \<Rightarrow> bool" where
  "is_notification (SendDM _ _) = True"
| "is_notification (SendChannel _ _) = True"
| "is_notification _ = False"

fun is_mutation :: "effect \<Rightarrow> bool" where
  "is_mutation (MemberKick _ _) = True"
| "is_mutation (BanMember _ _ _) = True"
| "is_mutation (UnbanMember _) = True"
| "is_mutation (FireMute _ _) = True"
| "is_mutation _ = False"

fun is_note :: "effect \<Rightarrow> bool" where
  "is_note (CreateCaseNote _ _ _) = True"
| "is_note _ = False"


fun is_operator_message :: "effect \<Rightarrow> bool" where
  "is_operator_message (CreateMessage _) = True"
| "is_operator_message _ = False"

fun is_suppression :: "effect \<Rightarrow> bool" where
  "is_suppression (SetTimeout _ _ _) = True"
| "is_suppression (IgnoreLog _ _ _) = True"
| "is_suppression _ = False"

text \<open>
  What \<open>tryToMessageUser\<close> attempts and answers, read off a run of it from the empty
  trace (\<open>tryToMessageUser_run\<close> below: from any state it appends exactly these).
\<close>

definition notificationAttempts :: "env \<Rightarrow> User \<Rightarrow> string \<Rightarrow> bool \<Rightarrow> bool \<Rightarrow> effect list" where
  "notificationAttempts e usr str useDM useChannel =
     trace (snd (tryToMessageUser e usr str useDM useChannel \<lparr>ignoredEvents = [], trace = []\<rparr>))"

definition messageSentOf :: "env \<Rightarrow> User \<Rightarrow> string \<Rightarrow> bool \<Rightarrow> bool \<Rightarrow> bool" where
  "messageSentOf e usr str useDM useChannel =
     fst (tryToMessageUser e usr str useDM useChannel \<lparr>ignoredEvents = [], trace = []\<rparr>)"

text \<open>
  The values the handlers build on the way, under the names the source gives them: the
  rendered notification texts and the argument of \<open>createCase\<close> for a commanded action.
\<close>

definition warnMessage :: "env \<Rightarrow> string \<Rightarrow> string" where
  "warnMessage e rsn =
     replace (util e)
       (replace (util e) (warn_message (configValue e)) ''{guildName}'' (guildName e))
       ''{reason}'' rsn"

definition kickMessage :: "env \<Rightarrow> string option \<Rightarrow> string" where
  "kickMessage e rsn =
     formatTemplateString (util e) (kick_message (configValue e))
       [(''guildName'', Some (guildName e)), (''reason'', rsn)]"

definition banMessage :: "env \<Rightarrow> string option \<Rightarrow> string" where
  "banMessage e rsn =
     formatTemplateString (util e) (ban_message (configValue e))
       [(''guildName'', Some (guildName e)), (''reason'', rsn)]"

definition muteMessage :: "env \<Rightarrow> string option \<Rightarrow> string option \<Rightarrow> string" where
  "muteMessage e time rsn0 =
     formatTemplateString (util e)
       (if truthyTime (muteTimeOf e time)
        then timed_mute_message (configValue e)
        else mute_message (configValue e))
       [(''guildName'', Some (guildName e)), (''reason'', muteReasonOf e time rsn0),
        (''time'', timeUntilUnmuteOf e (muteTimeOf e time))]"

definition commandCase :: "Message \<Rightarrow> string \<Rightarrow> CaseTypes \<Rightarrow> string option \<Rightarrow> case_args" where
  "commandCase msg uid ty rsn =
     \<lparr>userId = uid, modId = Some (user_id (author msg)), ctype = ty, auditLogId = None,
      reason = rsn, automatic = None, postInCaseLog = None\<rparr>"

definition massbanCase :: "Message \<Rightarrow> string \<Rightarrow> string \<Rightarrow> case_args" where
  "massbanCase msg banReason uid =
     \<lparr>userId = uid, modId = Some (user_id (author msg)), ctype = Ban,
      auditLogId = None, reason = Some (''Mass ban: '' @ banReason),
      automatic = None, postInCaseLog = Some False\<rparr>"

text \<open>
  One target of a massban run: whether its iteration of the ban loop gets through the
  \<open>try\<close> (the ban and the case write both complete), and what the iteration emits.
\<close>

definition massbanDone :: "env \<Rightarrow> Message \<Rightarrow> string \<Rightarrow> string \<Rightarrow> bool" where
  "massbanDone e msg banReason uid =
     (ban_succeeds e uid \<and> createCase_succeeds e (massbanCase msg banReason uid))"

text \<open>
  The targets of a run that get through, and the ones the \<open>catch\<close> pushes on
  \<open>failedBans\<close>; the ban reason is the operator's reply.
\<close>

definition massbanSucceeded :: "env \<Rightarrow> Message \<Rightarrow> string list \<Rightarrow> string list" where
  "massbanSucceeded e msg userIds =
     filter (massbanDone e msg (orEmpty (reply_content e))) userIds"

definition massbanFailed :: "env \<Rightarrow> Message \<Rightarrow> string list \<Rightarrow> string list" where
  "massbanFailed e msg userIds =
     filter (\<lambda>u. \<not> massbanDone e msg (orEmpty (reply_content e)) u) userIds"


text \<open>
  The three gateway handlers by the kind of event they take: \<open>guildBanAdd\<close> and
  \<open>guildBanRemove\<close> receive the user, \<open>guildMemberRemove\<close> the member.
\<close>

fun observe :: "env \<Rightarrow> IgnoredEventType \<Rightarrow> Member \<Rightarrow> state \<Rightarrow> state" where
  "observe e IgnoredBan m s = onGuildBanAdd e (user m) s"
| "observe e IgnoredUnban m s = onGuildBanRemove e (user m) s"
| "observe e IgnoredKick m s = onGuildMemberRemove e m s"

fun auditActionOf :: "IgnoredEventType \<Rightarrow> AuditLogActions" where
  "auditActionOf IgnoredBan = MEMBER_BAN_ADD"
| "auditActionOf IgnoredUnban = MEMBER_BAN_REMOVE"
| "auditActionOf IgnoredKick = MEMBER_KICK_ACTION"

fun caseTypeOf :: "IgnoredEventType \<Rightarrow> CaseTypes" where
  "caseTypeOf IgnoredBan = Ban"
| "caseTypeOf IgnoredUnban = Unban"
| "caseTypeOf IgnoredKick = Kick"

section \<open>Concrete inputs\<close>

text \<open>
  A guild with the plugin's default options (plus a mute role), a moderator, a target
  member, and a platform that rejects every kick, delivers no message and has no audit
  entry. The theorems below are instantiated on these, varied field by field.
\<close>

definition sample_config :: config where
  "sample_config =
     \<lparr>dm_on_warn = True, dm_on_mute = False, dm_on_kick = False, dm_on_ban = False,
      message_on_warn = False, message_on_mute = False, message_on_kick = False,
      message_on_ban = False, message_channel = None,
      warn_message = ''You have received a warning on {guildName}: {reason}'',
      mute_message = ''You have been muted on {guildName}. Reason given: {reason}'',
      timed_mute_message =
        ''You have been muted on {guildName} for {time}. Reason given: {reason}'',
      kick_message = ''You have been kicked from {guildName}. Reason given: {reason}'',
      ban_message = ''You have been banned from {guildName}. Reason given: {reason}'',
      mute_role = Some ''muted''\<rparr>"

definition sample_utils :: utils where
  "sample_utils =
     \<lparr>convertDelayStringToMS = (\<lambda>str. if str = ''1h'' then Some 3600000 else None),
      humanizeDuration = (\<lambda>ms. ''1 hour''),
      formatTemplateString = (\<lambda>template values. template),
      errorMessage = (\<lambda>str. ''error: '' @ str),
      successMessage = (\<lambda>str. ''ok: '' @ str),
      replace = (\<lambda>str pattern replacement. str),
      toLowerCase = (\<lambda>str. str),
      trim = (\<lambda>str. str)\<rparr>"

definition moderator :: Member where
  "moderator = \<lparr>user = \<lparr>user_id = ''100'', username = ''mod'', discriminator = ''0001''\<rparr>\<rparr>"

definition target :: Member where
  "target = \<lparr>user = \<lparr>user_id = ''200'', username = ''troll'', discriminator = ''0002''\<rparr>\<rparr>"

definition sample_msg :: Message where
  "sample_msg = \<lparr>author = user moderator, msg_member = moderator\<rparr>"

definition sample_env :: env where
  "sample_env =
     \<lparr>configValue = sample_config, util = sample_utils, guildName = ''Guild'',
      canActOn = (\<lambda>actor member. True),
      members_get = (\<lambda>uid. None),
      findRelevantAuditLogEntry = (\<lambda>action uid. None),
      dm_delivered = (\<lambda>uid str. False),
      channel_delivered = (\<lambda>channel str. False),
      kick_succeeds = (\<lambda>uid. False),
      ban_succeeds = (\<lambda>uid. uid \<noteq> ''B''),
      unban_succeeds = (\<lambda>uid. True),
      mute_result = (\<lambda>member muteTime. Some \<lparr>case_id = Some 7\<rparr>),
      new_case_id = (\<lambda>args. 8),
      createCase_succeeds = (\<lambda>args. True),
      reaction = Some CrossMark,
      reply_content = Some ''raid''\<rparr>"

text \<open>The same guild where user B is a member the moderator may not act on.\<close>

definition protected_env :: env where
  "protected_env =
     sample_env\<lparr>members_get := (\<lambda>uid. if uid = ''B'' then Some target else None),
                canActOn := (\<lambda>actor member. False)\<rparr>"

text \<open>
  The same guild configured to send a direct message on kick, ban and mute (none is
  delivered), where the target has no mute on record.
\<close>

definition dm_env :: env where
  "dm_env =
     sample_env\<lparr>configValue :=
                  sample_config\<lparr>dm_on_kick := True, dm_on_ban := True, dm_on_mute := True\<rparr>,
                mute_result := (\<lambda>member muteTime. Some \<lparr>case_id = None\<rparr>)\<rparr>"


definition idle :: state where
  "idle = \<lparr>ignoredEvents = [], trace = []\<rparr>"

section \<open>Basic facts\<close>

lemma trace_emit [simp]: "trace (emit x s) = trace s @ [x]"
  by (simp add: emit_def)

lemma ignoredEvents_emit [simp]: "ignoredEvents (emit x s) = ignoredEvents s"
  by (simp add: emit_def)

lemma trace_ignoreEvent:
  "trace (ignoreEvent t u timeout s) =
     trace s @ [SetTimeout t u (case timeout of None \<Rightarrow> 1000 * 15
                                | Some ms \<Rightarrow> if ms = 0 then 1000 * 15 else ms)]"
  by (simp add: ignoreEvent_def)

lemma ignoredEvents_ignoreEvent:
  "ignoredEvents (ignoreEvent t u timeout s) =
     ignoredEvents s @ [\<lparr>ignored_type = t, ignored_userId = u\<rparr>]"
  by (simp add: ignoreEvent_def)

lemma findIndex_absent: "\<not> list_ex p xs \<Longrightarrow> findIndex p xs = - 1"
  by (induction xs) (auto simp: Let_def)

lemma findIndex_present:
  "list_ex p xs \<Longrightarrow> findIndex p xs = int (length (takeWhile (\<lambda>x. \<not> p x) xs))"
  by (induction xs) (auto simp: Let_def)

lemma spliceArray_one:
  "i < length xs \<Longrightarrow> spliceArray xs (int i) 1 = take i xs @ drop (Suc i) xs"
  by (simp add: spliceArray_def Let_def nat_add_distrib)

lemma spliceArray_minus_one: "spliceArray xs (- 1) 1 = butlast xs"
  by (cases xs rule: rev_cases) (simp_all add: spliceArray_def Let_def)

lemma takeWhile_lt: "list_ex p xs \<Longrightarrow> length (takeWhile (\<lambda>x. \<not> p x) xs) < length xs"
  by (induction xs) auto

lemma drop_Suc_takeWhile:
  "drop (Suc (length (takeWhile P xs))) xs = tl (dropWhile P xs)"
  by (induction xs) auto

lemma spliceArray_findIndex_present:
  assumes "list_ex p xs"
  shows "spliceArray xs (findIndex p xs) 1 =
           takeWhile (\<lambda>x. \<not> p x) xs @ tl (dropWhile (\<lambda>x. \<not> p x) xs)"
proof -
  have "spliceArray xs (findIndex p xs) 1 =
          take (length (takeWhile (\<lambda>x. \<not> p x) xs)) xs
          @ drop (Suc (length (takeWhile (\<lambda>x. \<not> p x) xs))) xs"
    using assms by (simp add: findIndex_present spliceArray_one takeWhile_lt)
  then show ?thesis
    by (simp add: drop_Suc_takeWhile takeWhile_eq_take [symmetric])
qed

lemma filter_not_remove_first:
  "filter (\<lambda>x. \<not> p x) (takeWhile (\<lambda>x. \<not> p x) xs @ tl (dropWhile (\<lambda>x. \<not> p x) xs))
     = filter (\<lambda>x. \<not> p x) xs"
  by (induction xs) auto

lemma filter_remove_first:
  "list_ex p xs \<Longrightarrow>
   Suc (length (filter p (takeWhile (\<lambda>x. \<not> p x) xs @ tl (dropWhile (\<lambda>x. \<not> p x) xs))))
     = length (filter p xs)"
  by (induction xs) auto

lemma remove_first_snoc:
  "\<not> list_ex p xs \<Longrightarrow> p y \<Longrightarrow>
   takeWhile (\<lambda>x. \<not> p x) (xs @ [y]) @ tl (dropWhile (\<lambda>x. \<not> p x) (xs @ [y])) = xs"
  by (induction xs) auto


lemma emitted_self [simp]: "emitted s s = []"
  by (simp add: emitted_def)

lemma emitted_append: "trace s' = trace s @ es \<Longrightarrow> emitted s s' = es"
  by (simp add: emitted_def)

lemma casesIn_simps [simp]:
  "casesIn [] = []"
  "casesIn (x # xs) = (case caseOf x of Some a \<Rightarrow> a # casesIn xs | None \<Rightarrow> casesIn xs)"
  by (simp_all add: casesIn_def List.map_filter_simps split: option.splits)

lemma trace_clearIgnoredEvent [simp]: "trace (clearIgnoredEvent t u s) = trace s"
  by (simp add: clearIgnoredEvent_def)

lemma isEventIgnored_ignoreEvent: "isEventIgnored t u (ignoreEvent t u timeout s)"
  by (simp add: isEventIgnored_def ignoreEvent_def matches_def)

lemma clear_after_ignore:
  assumes "\<not> isEventIgnored t u s"
  shows "ignoredEvents (clearIgnoredEvent t u (ignoreEvent t u timeout s)) = ignoredEvents s"
proof -
  have m: "matches t u \<lparr>ignored_type = t, ignored_userId = u\<rparr>"
    by (simp add: matches_def)
  have ex: "list_ex (matches t u) (ignoredEvents s @ [\<lparr>ignored_type = t, ignored_userId = u\<rparr>])"
    using m by simp
  have no: "\<not> list_ex (matches t u) (ignoredEvents s)"
    using assms by (simp add: isEventIgnored_def)
  show ?thesis
    unfolding clearIgnoredEvent_def
    by (simp add: ignoredEvents_ignoreEvent spliceArray_findIndex_present [OF ex]
        remove_first_snoc [OF no m])
qed

lemma observe_suppressed:
  "isEventIgnored t (member_id m) s \<Longrightarrow>
   observe e t m s = clearIgnoredEvent t (member_id m) s"
  by (cases t) (simp_all add: onGuildBanAdd_def onGuildBanRemove_def onGuildMemberRemove_def
      member_id_def)

lemma observe_unsuppressed_cases:
  assumes "\<not> isEventIgnored t (member_id m) s"
  shows "casesIn (emitted s (observe e t m s)) =
           (case findRelevantAuditLogEntry e (auditActionOf t) (member_id m) of
              Some en \<Rightarrow>
                [\<lparr>userId = member_id m, modId = Some (user_id (entry_user en)),
                  ctype = caseTypeOf t, auditLogId = Some (entry_id en),
                  reason = (if t = IgnoredUnban then None else entry_reason en),
                  automatic = Some True, postInCaseLog = None\<rparr>]
            | None \<Rightarrow>
                (if t = IgnoredKick then []
                 else [\<lparr>userId = member_id m, modId = None, ctype = caseTypeOf t,
                        auditLogId = None, reason = None,
                        automatic = (if t = IgnoredUnban then Some True else None),
                        postInCaseLog = None\<rparr>]))"
  using assms
  by (cases t)
     (simp_all add: onGuildBanAdd_def onGuildBanRemove_def onGuildMemberRemove_def
       member_id_def emitted_def split: option.splits)

lemma clearIgnoredEvent_absent:
  "\<not> isEventIgnored t u s \<Longrightarrow>
   ignoredEvents (clearIgnoredEvent t u s) = butlast (ignoredEvents s)"
  by (simp add: clearIgnoredEvent_def isEventIgnored_def findIndex_absent
      spliceArray_minus_one)

lemma clearIgnoredEvent_present:
  assumes "isEventIgnored t u s"
  shows "Suc (length (filter (matches t u) (ignoredEvents (clearIgnoredEvent t u s))))
           = length (filter (matches t u) (ignoredEvents s))
         \<and> filter (\<lambda>x. \<not> matches t u x) (ignoredEvents (clearIgnoredEvent t u s))
           = filter (\<lambda>x. \<not> matches t u x) (ignoredEvents s)"
proof -
  have ex: "list_ex (matches t u) (ignoredEvents s)"
    using assms by (simp add: isEventIgnored_def)
  have eq: "ignoredEvents (clearIgnoredEvent t u s) =
              takeWhile (\<lambda>x. \<not> matches t u x) (ignoredEvents s)
              @ tl (dropWhile (\<lambda>x. \<not> matches t u x) (ignoredEvents s))"
    by (simp add: clearIgnoredEvent_def spliceArray_findIndex_present [OF ex])
  show ?thesis
    unfolding eq
    using filter_remove_first [OF ex]
      filter_not_remove_first [of "matches t u" "ignoredEvents s"]
    by (intro conjI)
qed

section \<open>The suppressor and the observed events\<close>

text \<open>
  C3. Consuming a suppression for a pair that has no entry is meant to leave the ledger
  alone. \<open>findIndex\<close> answers -1 there and \<open>splice(-1, 1)\<close> deletes the last element:
  with one entry for a kick of user 300 in the ledger, clearing the absent pair
  (ban, user 200) empties the ledger. (\<open>clearIgnoredEvent_absent\<close> is the general fact,
  \<open>clearIgnoredEvent_present\<close> the half of the sentence that holds.)
\<close>

theorem clearIgnoredEvent_absent_drops_other_entry:
  "\<not> isEventIgnored IgnoredBan ''200''
        \<lparr>ignoredEvents = [\<lparr>ignored_type = IgnoredKick, ignored_userId = ''300''\<rparr>],
         trace = []\<rparr>
   \<and> isEventIgnored IgnoredKick ''300''
        \<lparr>ignoredEvents = [\<lparr>ignored_type = IgnoredKick, ignored_userId = ''300''\<rparr>],
         trace = []\<rparr>
   \<and> ignoredEvents
        (clearIgnoredEvent IgnoredBan ''200''
           \<lparr>ignoredEvents = [\<lparr>ignored_type = IgnoredKick, ignored_userId = ''300''\<rparr>],
            trace = []\<rparr>) = []"
  by (simp add: isEventIgnored_def clearIgnoredEvent_def matches_def spliceArray_def)

text \<open>
  The handlers reach that call by themselves. A ban of user 200 is commanded and its echo
  consumes the entry; a kick of user 300 is commanded; then the timer armed for the ban
  fires, finds no entry for (ban, 200) and removes the suppression of the kick.
\<close>

lemma expiry_after_echo_drops_other_suppression:
  "ignoredEvents
     (ignoreEvent IgnoredKick ''300'' None
        (onGuildBanAdd sample_env (user target)
           (ignoreEvent IgnoredBan ''200'' None idle)))
     = [\<lparr>ignored_type = IgnoredKick, ignored_userId = ''300''\<rparr>]
   \<and> ignoredEvents
       (timerFires IgnoredBan ''200''
          (ignoreEvent IgnoredKick ''300'' None
             (onGuildBanAdd sample_env (user target)
                (ignoreEvent IgnoredBan ''200'' None idle))))
     = []"
  by (simp add: timerFires_def clearIgnoredEvent_def onGuildBanAdd_def isEventIgnored_def
      ignoreEvent_def emit_def matches_def spliceArray_def idle_def target_def)

text \<open>
  C2, as the handlers have it. An event that is not suppressed and for which the audit
  log gives no entry: \<open>guildBanAdd\<close> and \<open>guildBanRemove\<close> still create a case of their
  type with no moderator (the unban one flagged automatic); \<open>guildMemberRemove\<close> does
  nothing at all, since a member who is gone with no kick entry in the audit log has not
  been kicked.
\<close>

theorem observed_event_without_audit_match:
  assumes "\<not> isEventIgnored t (member_id m) s"
    and "findRelevantAuditLogEntry e (auditActionOf t) (member_id m) = None"
  shows "case t of
           IgnoredKick \<Rightarrow> emitted s (observe e t m s) = []
         | IgnoredBan \<Rightarrow>
             map (\<lambda>c. (userId c, modId c, ctype c)) (casesIn (emitted s (observe e t m s)))
               = [(member_id m, None, Ban)]
         | IgnoredUnban \<Rightarrow>
             map (\<lambda>c. (userId c, modId c, ctype c, automatic c))
               (casesIn (emitted s (observe e t m s)))
               = [(member_id m, None, Unban, Some True)]"
proof (cases t)
  case IgnoredKick
  with assms show ?thesis
    by (simp add: onGuildMemberRemove_def)
next
  case IgnoredBan
  with assms observe_unsuppressed_cases [OF assms(1), of e] show ?thesis
    by simp
next
  case IgnoredUnban
  with assms observe_unsuppressed_cases [OF assms(1), of e] show ?thesis
    by simp
qed

theorem observed_event_without_audit_match_witness:
  "\<not> isEventIgnored IgnoredUnban (member_id target) idle
   \<and> findRelevantAuditLogEntry sample_env (auditActionOf IgnoredUnban) (member_id target) = None
   \<and> map (\<lambda>c. (userId c, modId c, ctype c, automatic c))
        (casesIn (emitted idle (observe sample_env IgnoredUnban target idle)))
      = [(''200'', None, Unban, Some True)]"
proof -
  have h1: "\<not> isEventIgnored IgnoredUnban (member_id target) idle"
    by (simp add: isEventIgnored_def idle_def)
  have h2: "findRelevantAuditLogEntry sample_env (auditActionOf IgnoredUnban) (member_id target)
              = None"
    by (simp add: sample_env_def)
  show ?thesis
    using h1 h2 observed_event_without_audit_match [OF h1 h2]
    by (simp add: member_id_def target_def)
qed

text \<open>
  C2 as stated fails for the kick kind: a member removal that is not suppressed and has
  no audit entry creates no case.
\<close>

theorem member_removed_without_audit_match_no_case:
  "\<not> isEventIgnored IgnoredKick (member_id target) idle
   \<and> findRelevantAuditLogEntry sample_env MEMBER_KICK_ACTION (member_id target) = None
   \<and> casesIn (emitted idle (onGuildMemberRemove sample_env target idle)) = []"
  by (simp add: isEventIgnored_def idle_def sample_env_def onGuildMemberRemove_def)


text \<open>
  C4, as the handlers have it. With no other suppression live for the pair: after
  \<open>ignoreEvent\<close>, the first matching event emits nothing and leaves the ledger as it was
  before the registration; the second one is handled as an unsuppressed event. It creates
  a case flagged automatic with the moderator of the audit entry when there is one; with
  no audit entry a ban or unban still gets its case with no moderator, a member removal
  gets none.
\<close>

theorem suppression_consumed_by_first_event:
  assumes "\<not> isEventIgnored t (member_id m) s"
  shows "emitted (ignoreEvent t (member_id m) timeout s)
            (observe e t m (ignoreEvent t (member_id m) timeout s)) = []
         \<and> ignoredEvents (observe e t m (ignoreEvent t (member_id m) timeout s)) = ignoredEvents s
         \<and> (case findRelevantAuditLogEntry e (auditActionOf t) (member_id m) of
              Some en \<Rightarrow>
                map (\<lambda>c. (userId c, modId c, ctype c, automatic c))
                  (casesIn (emitted (observe e t m (ignoreEvent t (member_id m) timeout s))
                     (observe e t m (observe e t m (ignoreEvent t (member_id m) timeout s)))))
                = [(member_id m, Some (user_id (entry_user en)), caseTypeOf t, Some True)]
            | None \<Rightarrow>
                if t = IgnoredKick
                then casesIn (emitted (observe e t m (ignoreEvent t (member_id m) timeout s))
                     (observe e t m (observe e t m (ignoreEvent t (member_id m) timeout s)))) = []
                else map (\<lambda>c. (userId c, modId c, ctype c))
                  (casesIn (emitted (observe e t m (ignoreEvent t (member_id m) timeout s))
                     (observe e t m (observe e t m (ignoreEvent t (member_id m) timeout s)))))
                = [(member_id m, None, caseTypeOf t)])"
proof -
  let ?s1 = "ignoreEvent t (member_id m) timeout s"
  let ?s2 = "observe e t m ?s1"
  have s2: "?s2 = clearIgnoredEvent t (member_id m) ?s1"
    by (rule observe_suppressed) (rule isEventIgnored_ignoreEvent)
  have a: "emitted ?s1 ?s2 = []"
    by (simp add: s2 emitted_def)
  have b: "ignoredEvents ?s2 = ignoredEvents s"
    by (simp add: s2 clear_after_ignore [OF assms])
  have free: "\<not> isEventIgnored t (member_id m) ?s2"
    using assms b by (simp add: isEventIgnored_def)
  have c: "casesIn (emitted ?s2 (observe e t m ?s2)) =
           (case findRelevantAuditLogEntry e (auditActionOf t) (member_id m) of
              Some en \<Rightarrow>
                [\<lparr>userId = member_id m, modId = Some (user_id (entry_user en)),
                  ctype = caseTypeOf t, auditLogId = Some (entry_id en),
                  reason = (if t = IgnoredUnban then None else entry_reason en),
                  automatic = Some True, postInCaseLog = None\<rparr>]
            | None \<Rightarrow>
                (if t = IgnoredKick then []
                 else [\<lparr>userId = member_id m, modId = None, ctype = caseTypeOf t,
                        auditLogId = None, reason = None,
                        automatic = (if t = IgnoredUnban then Some True else None),
                        postInCaseLog = None\<rparr>]))"
    by (rule observe_unsuppressed_cases [OF free])
  show ?thesis
  proof (cases "findRelevantAuditLogEntry e (auditActionOf t) (member_id m)")
    case None
    with a b c show ?thesis by (cases "t = IgnoredKick") simp_all
  next
    case (Some en)
    with a b c show ?thesis by simp
  qed
qed

theorem suppression_consumed_by_first_event_witness:
  "\<not> isEventIgnored IgnoredBan (member_id target) idle
   \<and> emitted (ignoreEvent IgnoredBan (member_id target) None idle)
        (observe sample_env IgnoredBan target
           (ignoreEvent IgnoredBan (member_id target) None idle)) = []
   \<and> ignoredEvents (observe sample_env IgnoredBan target
        (ignoreEvent IgnoredBan (member_id target) None idle)) = []
   \<and> map (\<lambda>c. (userId c, modId c, ctype c))
        (casesIn (emitted (observe sample_env IgnoredBan target
                            (ignoreEvent IgnoredBan (member_id target) None idle))
                    (observe sample_env IgnoredBan target
                       (observe sample_env IgnoredBan target
                          (ignoreEvent IgnoredBan (member_id target) None idle)))))
      = [(''200'', None, Ban)]"
proof -
  have h: "\<not> isEventIgnored IgnoredBan (member_id target) idle"
    by (simp add: isEventIgnored_def idle_def)
  have audit: "findRelevantAuditLogEntry sample_env MEMBER_BAN_ADD ''200'' = None"
    by (simp add: sample_env_def)
  have who: "member_id target = ''200''"
    by (simp add: member_id_def target_def)
  have ledger: "ignoredEvents idle = []"
    by (simp add: idle_def)
  show ?thesis
    using h suppression_consumed_by_first_event [OF h, of None sample_env]
    by (simp add: audit who ledger)
qed

text \<open>
  C4 as stated fails for the kick kind: once the suppression is consumed, a second member
  removal with no kick entry in the audit log creates no case.
\<close>

theorem second_member_removal_without_audit_match_no_case:
  "emitted (ignoreEvent IgnoredKick (member_id target) None idle)
      (onGuildMemberRemove sample_env target
         (ignoreEvent IgnoredKick (member_id target) None idle)) = []
   \<and> \<not> isEventIgnored IgnoredKick (member_id target)
        (onGuildMemberRemove sample_env target
           (ignoreEvent IgnoredKick (member_id target) None idle))
   \<and> casesIn (emitted (onGuildMemberRemove sample_env target
                         (ignoreEvent IgnoredKick (member_id target) None idle))
                (onGuildMemberRemove sample_env target
                   (onGuildMemberRemove sample_env target
                      (ignoreEvent IgnoredKick (member_id target) None idle)))) = []"
proof -
  have s1: "ignoreEvent IgnoredKick (member_id target) None idle =
              \<lparr>ignoredEvents = [\<lparr>ignored_type = IgnoredKick, ignored_userId = ''200''\<rparr>],
               trace = [SetTimeout IgnoredKick ''200'' 15000]\<rparr>"
    by (simp add: ignoreEvent_def emit_def idle_def member_id_def target_def)
  have s2: "onGuildMemberRemove sample_env target
              \<lparr>ignoredEvents = [\<lparr>ignored_type = IgnoredKick, ignored_userId = ''200''\<rparr>],
               trace = [SetTimeout IgnoredKick ''200'' 15000]\<rparr> =
              \<lparr>ignoredEvents = [], trace = [SetTimeout IgnoredKick ''200'' 15000]\<rparr>"
    by (simp add: onGuildMemberRemove_def isEventIgnored_def clearIgnoredEvent_def
        matches_def spliceArray_def member_id_def target_def)
  have s3: "onGuildMemberRemove sample_env target
              \<lparr>ignoredEvents = [], trace = [SetTimeout IgnoredKick ''200'' 15000]\<rparr> =
              \<lparr>ignoredEvents = [], trace = [SetTimeout IgnoredKick ''200'' 15000]\<rparr>"
    by (simp add: onGuildMemberRemove_def isEventIgnored_def sample_env_def)
  show ?thesis
    by (simp add: s1 s2 s3 emitted_def isEventIgnored_def)
qed

section \<open>Notification\<close>

text \<open>
  C10. With no fallback channel configured, \<open>tryToMessageUser\<close> with direct messages off
  and the channel fallback on attempts nothing and answers \<open>false\<close> (unlike the
  both-off call, which answers \<open>true\<close>); whatever the two flags are, the only attempt
  it can make is the direct message, so the channel is tried only when one is configured.
\<close>

theorem tryToMessageUser_without_channel:
  assumes "\<not> truthy (message_channel (configValue e))"
  shows "tryToMessageUser e usr str False True s = (False, s)
         \<and> tryToMessageUser e usr str False False s = (True, s)
         \<and> emitted s (snd (tryToMessageUser e usr str useDM useChannel s))
             = (if useDM then [SendDM (user_id usr) str] else [])"
proof (cases "message_channel (configValue e)")
  case None
  then show ?thesis
    by (simp add: tryToMessageUser_def emitted_def)
next
  case (Some ch)
  with assms have "ch = []" by simp
  with Some show ?thesis
    by (simp add: tryToMessageUser_def emitted_def)
qed

theorem tryToMessageUser_without_channel_witness:
  "\<not> truthy (message_channel (configValue sample_env))
   \<and> tryToMessageUser sample_env (user target) ''hello'' False True idle = (False, idle)
   \<and> tryToMessageUser sample_env (user target) ''hello'' False False idle = (True, idle)
   \<and> emitted idle (snd (tryToMessageUser sample_env (user target) ''hello'' True True idle))
       = [SendDM ''200'' ''hello'']"
proof -
  have h: "\<not> truthy (message_channel (configValue sample_env))"
    by (simp add: sample_env_def sample_config_def)
  show ?thesis
    using h tryToMessageUser_without_channel [OF h, of "user target" "''hello''" idle True True]
    by (simp add: target_def)
qed

section \<open>What the commands emit\<close>

text \<open>
  Each lemma gives the part of the trace one handler adds, from any starting state, once
  its authority check has passed.
\<close>

lemma tryToMessageUser_run:
  "tryToMessageUser e usr str useDM useChannel s =
     (messageSentOf e usr str useDM useChannel,
      s\<lparr>trace := trace s @ notificationAttempts e usr str useDM useChannel\<rparr>)"
  by (simp add: tryToMessageUser_def messageSentOf_def notificationAttempts_def emit_def
      Let_def split: option.splits)

lemma notificationAttempts_only_notify:
  "filter is_notification (notificationAttempts e usr str useDM useChannel)
     = notificationAttempts e usr str useDM useChannel"
  "filter is_mutation (notificationAttempts e usr str useDM useChannel) = []"
  "filter is_operator_message (notificationAttempts e usr str useDM useChannel) = []"
  "filter is_note (notificationAttempts e usr str useDM useChannel) = []"
  "casesIn (notificationAttempts e usr str useDM useChannel) = []"
  by (simp_all add: tryToMessageUser_def notificationAttempts_def emit_def
      Let_def split: option.splits)

lemma casesIn_append [simp]: "casesIn (xs @ ys) = casesIn xs @ casesIn ys"
  by (induction xs) (simp_all split: option.splits)

lemma trace_update [simp]: "emit x (s\<lparr>trace := es\<rparr>) = s\<lparr>trace := es @ [x]\<rparr>"
  by (simp add: emit_def)

lemma ignoreEvent_update:
  "ignoreEvent t u timeout s =
     s\<lparr>ignoredEvents := ignoredEvents s @ [\<lparr>ignored_type = t, ignored_userId = u\<rparr>],
       trace := trace s @ [SetTimeout t u (case timeout of None \<Rightarrow> 1000 * 15
                                | Some ms \<Rightarrow> if ms = 0 then 1000 * 15 else ms)]\<rparr>"
  by (simp add: ignoreEvent_def emit_def)

lemma kickCmd_emitted:
  assumes "canActOn e (msg_member msg) member"
  shows "emitted s (kickCmd e msg member rsn s) =
     (if truthy rsn
      then notificationAttempts e (user member)
             (formatTemplateString (util e) (kick_message (configValue e))
                [(''guildName'', Some (guildName e)), (''reason'', rsn)])
             (dm_on_kick (configValue e)) (message_on_kick (configValue e))
      else [])
     @ [IgnoreLog MEMBER_KICK (member_id member) None,
        SetTimeout IgnoredKick (member_id member) (1000 * 15),
        MemberKick (member_id member) rsn,
        CreateCase \<lparr>userId = member_id member, modId = Some (user_id (author msg)),
                    ctype = Kick, auditLogId = None, reason = rsn,
                    automatic = None, postInCaseLog = None\<rparr>,
        CreateMessage (successMessage (util e)
          (''Kicked **'' @ userTag (user member) @ ''**''
           @ (if truthy rsn \<and> \<not> messageSentOf e (user member)
                 (formatTemplateString (util e) (kick_message (configValue e))
                    [(''guildName'', Some (guildName e)), (''reason'', rsn)])
                 (dm_on_kick (configValue e)) (message_on_kick (configValue e))
              then '' (failed to message user)'' else []))),
        ServerLog MEMBER_KICK (ModAndUser (user (msg_member msg)) (user member))]"
  using assms
  by (simp add: kickCmd_def tryToMessageUser_run ignoreEvent_update emit_def emitted_def Let_def)


lemma banCmd_emitted:
  assumes "canActOn e (msg_member msg) member"
  shows "emitted s (banCmd e msg member rsn s) =
     (if truthy rsn
      then notificationAttempts e (user member)
             (formatTemplateString (util e) (ban_message (configValue e))
                [(''guildName'', Some (guildName e)), (''reason'', rsn)])
             (dm_on_ban (configValue e)) (message_on_ban (configValue e))
      else [])
     @ [IgnoreLog MEMBER_BAN (member_id member) None,
        SetTimeout IgnoredBan (member_id member) (1000 * 15),
        BanMember (member_id member) (Some 1) rsn,
        CreateCase \<lparr>userId = member_id member, modId = Some (user_id (author msg)),
                    ctype = Ban, auditLogId = None, reason = rsn,
                    automatic = None, postInCaseLog = None\<rparr>,
        CreateMessage (successMessage (util e)
          (''Banned **'' @ userTag (user member) @ ''**''
           @ (if truthy rsn \<and> \<not> messageSentOf e (user member)
                 (formatTemplateString (util e) (ban_message (configValue e))
                    [(''guildName'', Some (guildName e)), (''reason'', rsn)])
                 (dm_on_ban (configValue e)) (message_on_ban (configValue e))
              then '' (failed to message user)'' else []))),
        ServerLog MEMBER_BAN (ModAndMember (user (msg_member msg)) member)]"
  using assms
  by (simp add: banCmd_def tryToMessageUser_run ignoreEvent_update emit_def emitted_def Let_def)

lemma warnCmd_emitted:
  assumes "canActOn e (msg_member msg) member"
  shows "emitted s (warnCmd e msg member rsn s) =
     notificationAttempts e (user member)
       (replace (util e)
          (replace (util e) (warn_message (configValue e)) ''{guildName}'' (guildName e))
          ''{reason}'' rsn)
       (dm_on_warn (configValue e)) (message_on_warn (configValue e))
     @ (if messageSentOf e (user member)
             (replace (util e)
                (replace (util e) (warn_message (configValue e)) ''{guildName}'' (guildName e))
                ''{reason}'' rsn)
             (dm_on_warn (configValue e)) (message_on_warn (configValue e))
        then []
        else [CreateMessage ''Failed to message the user. Log the warning anyway?'',
              WaitForReaction,
              DeleteMessage ''Failed to message the user. Log the warning anyway?''])
     @ (if messageSentOf e (user member)
             (replace (util e)
                (replace (util e) (warn_message (configValue e)) ''{guildName}'' (guildName e))
                ''{reason}'' rsn)
             (dm_on_warn (configValue e)) (message_on_warn (configValue e))
           \<or> reaction e = Some CheckMark
        then [CreateCase \<lparr>userId = member_id member, modId = Some (user_id (author msg)),
                          ctype = Warn, auditLogId = None, reason = Some rsn,
                          automatic = None, postInCaseLog = None\<rparr>,
              CreateMessage (successMessage (util e)
                (''Warned **'' @ userTag (user member) @ ''**'')),
              ServerLog MEMBER_WARN (ModAndMember (user (msg_member msg)) member)]
        else [])"
proof (cases "reaction e")
  case None
  with assms show ?thesis
    by (simp add: warnCmd_def warnCmd_record_def tryToMessageUser_run emit_def emitted_def
        Let_def)
next
  case (Some r)
  with assms show ?thesis
    by (cases r)
       (simp_all add: warnCmd_def warnCmd_record_def tryToMessageUser_run emit_def emitted_def
        Let_def)
qed

lemma unbanCmd_emitted:
  "emitted s (unbanCmd e msg uid rsn s) =
     [IgnoreLog MEMBER_UNBAN uid None, SetTimeout IgnoredUnban uid (1000 * 15), UnbanMember uid]
     @ (if unban_succeeds e uid
        then [CreateMessage (successMessage (util e) ''Member unbanned!''),
              CreateCase \<lparr>userId = uid, modId = Some (user_id (author msg)),
                          ctype = Unban, auditLogId = None, reason = rsn,
                          automatic = None, postInCaseLog = None\<rparr>,
              ServerLog MEMBER_UNBAN (ModAndUserId (user (msg_member msg)) uid)]
        else [CreateMessage (errorMessage (util e) ''Failed to unban member'')])"
  by (simp add: unbanCmd_def ignoreEvent_update emit_def emitted_def Let_def)

lemma forcebanCmd_emitted:
  assumes "\<not> cannotActOnId e msg uid"
  shows "emitted s (forcebanCmd e msg uid rsn s) =
     [SetTimeout IgnoredBan uid (1000 * 15), IgnoreLog MEMBER_BAN uid None,
      BanMember uid (Some 1) rsn]
     @ (if ban_succeeds e uid
        then [CreateMessage (successMessage (util e) ''Member forcebanned!''),
              CreateCase \<lparr>userId = uid, modId = Some (user_id (author msg)),
                          ctype = Ban, auditLogId = None, reason = rsn,
                          automatic = None, postInCaseLog = None\<rparr>,
              ServerLog MEMBER_FORCEBAN (ModAndUserId (user (msg_member msg)) uid)]
        else [CreateMessage (errorMessage (util e) ''Failed to forceban member'')])"
  using assms
  by (simp add: forcebanCmd_def ignoreEvent_update emit_def emitted_def Let_def)

lemma softbanCmd_emitted:
  assumes "canActOn e (msg_member msg) member"
  shows "emitted s (snd (softbanCmd e msg member rsn s)) =
     [IgnoreLog MEMBER_BAN (member_id member) None,
      IgnoreLog MEMBER_UNBAN (member_id member) None,
      SetTimeout IgnoredBan (member_id member) (1000 * 15),
      SetTimeout IgnoredUnban (member_id member) (1000 * 15),
      BanMember (member_id member) (Some 1) rsn]
     @ (if ban_succeeds e (member_id member)
        then UnbanMember (member_id member)
             # (if unban_succeeds e (member_id member)
                then [CreateCase \<lparr>userId = member_id member,
                                  modId = Some (user_id (author msg)),
                                  ctype = Softban, auditLogId = None, reason = rsn,
                                  automatic = None, postInCaseLog = None\<rparr>,
                      CreateMessage (successMessage (util e)
                        (''Softbanned **'' @ userTag (user member) @ ''**'')),
                      ServerLog MEMBER_SOFTBAN (ModAndMember (user (msg_member msg)) member)]
                else [])
        else [])"
  using assms
  by (simp add: softbanCmd_def ignoreEvent_update emit_def emitted_def Let_def)

lemma muteCmd_emitted:
  assumes "truthy (mute_role (configValue e))"
    and "canActOn e (msg_member msg) member"
  shows "emitted s (muteCmd e msg member time rsn0 s) =
     [IgnoreLog MEMBER_ROLE_ADD (member_id member) None,
      FireMute (member_id member) (muteTimeOf e time)]
     @ (case mute_result e member (muteTimeOf e time) of
          None \<Rightarrow> [CreateMessage (errorMessage (util e) ''Could not mute the user'')]
        | Some mute \<Rightarrow>
            (case case_id mute of
               Some old \<Rightarrow>
                 (if truthy (muteReasonOf e time rsn0)
                  then [CreateCaseNote old (user_id (author msg))
                          (orEmpty (muteReasonOf e time rsn0))]
                  else [])
                 @ [CreateMessage (successMessage (util e)
                      (if truthyTime (muteTimeOf e time)
                       then ''Muted **'' @ userTag (user member) @ ''** for ''
                              @ orEmpty (timeUntilUnmuteOf e (muteTimeOf e time))
                       else ''Muted **'' @ userTag (user member) @ ''** indefinitely'')),
                    ServerLog MEMBER_MUTE (ModAndMember (user (msg_member msg)) member)]
             | None \<Rightarrow>
                 [CreateCase \<lparr>userId = member_id member, modId = Some (user_id (author msg)),
                              ctype = Mute, auditLogId = None,
                              reason = muteReasonOf e time rsn0,
                              automatic = None, postInCaseLog = None\<rparr>,
                  SetCaseId (member_id member)
                    (new_case_id e
                       \<lparr>userId = member_id member, modId = Some (user_id (author msg)),
                        ctype = Mute, auditLogId = None,
                        reason = muteReasonOf e time rsn0,
                        automatic = None, postInCaseLog = None\<rparr>)]
                 @ (if truthy (muteReasonOf e time rsn0)
                    then notificationAttempts e (user member)
                           (formatTemplateString (util e)
                              (if truthyTime (muteTimeOf e time)
                               then timed_mute_message (configValue e)
                               else mute_message (configValue e))
                              [(''guildName'', Some (guildName e)),
                               (''reason'', muteReasonOf e time rsn0),
                               (''time'', timeUntilUnmuteOf e (muteTimeOf e time))])
                           (dm_on_mute (configValue e)) (message_on_mute (configValue e))
                    else [])
                 @ [CreateMessage (successMessage (util e)
                      ((if truthyTime (muteTimeOf e time)
                        then ''Muted **'' @ userTag (user member) @ ''** for ''
                               @ orEmpty (timeUntilUnmuteOf e (muteTimeOf e time))
                        else ''Muted **'' @ userTag (user member) @ ''** indefinitely'')
                       @ (if truthy (muteReasonOf e time rsn0)
                             \<and> \<not> messageSentOf e (user member)
                                 (formatTemplateString (util e)
                                    (if truthyTime (muteTimeOf e time)
                                     then timed_mute_message (configValue e)
                                     else mute_message (configValue e))
                                    [(''guildName'', Some (guildName e)),
                                     (''reason'', muteReasonOf e time rsn0),
                                     (''time'', timeUntilUnmuteOf e (muteTimeOf e time))])
                                 (dm_on_mute (configValue e)) (message_on_mute (configValue e))
                          then '' (failed to message user)'' else []))),
                    ServerLog MEMBER_MUTE (ModAndMember (user (msg_member msg)) member)]))"
  using assms
  by (simp add: muteCmd_def tryToMessageUser_run emit_def emitted_def Let_def
      split: option.splits)

lemma verifyAll_iff: "verifyAll e msg uids = (\<not> list_ex (cannotActOnId e msg) uids)"
  by (induction uids) simp_all











lemma massban_store_answers:
  assumes "list_all (\<lambda>u. createCase_succeeds e (massbanCase msg (orEmpty (reply_content e)) u))
             userIds"
  shows "massbanSucceeded e msg userIds = filter (ban_succeeds e) userIds"
    and "massbanFailed e msg userIds = filter (\<lambda>u. \<not> ban_succeeds e u) userIds"
  using assms
  by (induction userIds)
     (simp_all add: massbanSucceeded_def massbanFailed_def massbanDone_def)


lemma dropWhile_skip:
  "filter P xs = [] \<Longrightarrow> dropWhile (\<lambda>x. \<not> P x) (xs @ ys) = dropWhile (\<lambda>x. \<not> P x) ys"
  by (induction xs) (simp_all split: if_splits)

section \<open>Commanded actions and their cases\<close>

text \<open>
  How case creation depends on the platform call, command by command. \<open>unbanCmd\<close> and
  \<open>forcebanCmd\<close> wrap the call in \<open>try\<close> and return from the \<open>catch\<close>;
  \<open>softbanCmd\<close> awaits both calls, so a rejection leaves the handler before the case is
  created. \<open>kickCmd\<close> and \<open>banCmd\<close> neither await nor guard the call: the case is
  created whatever becomes of it.
\<close>

lemma commanded_case_follows_mutation:
  "casesIn (emitted s (unbanCmd e msg uid rsn s))
     = (if unban_succeeds e uid then [commandCase msg uid Unban rsn] else [])"
  "\<not> cannotActOnId e msg uid \<Longrightarrow>
   casesIn (emitted s (forcebanCmd e msg uid rsn s))
     = (if ban_succeeds e uid then [commandCase msg uid Ban rsn] else [])"
  "canActOn e (msg_member msg) member \<Longrightarrow>
   casesIn (emitted s (snd (softbanCmd e msg member rsn s)))
     = (if ban_succeeds e (member_id member) \<and> unban_succeeds e (member_id member)
        then [commandCase msg (member_id member) Softban rsn] else [])"
  by (simp_all add: unbanCmd_emitted forcebanCmd_emitted softbanCmd_emitted commandCase_def)

lemma kick_ban_case_whatever_the_mutation:
  assumes "canActOn e (msg_member msg) member"
  shows "casesIn (emitted s (kickCmd e msg member rsn s))
           = [commandCase msg (member_id member) Kick rsn]"
    and "casesIn (emitted s (banCmd e msg member rsn s))
           = [commandCase msg (member_id member) Ban rsn]"
  by (simp_all add: kickCmd_emitted [OF assms] banCmd_emitted [OF assms]
      notificationAttempts_only_notify commandCase_def)

text \<open>
  C1. The sentence couples case creation to the outcome of the platform call. For kick (and
  ban) the coupling is missing: the moderator may act on the target, the platform rejects
  the kick, and the Kick case is created all the same.
\<close>

theorem kickCmd_creates_case_though_kick_rejected:
  "canActOn sample_env (msg_member sample_msg) target
   \<and> \<not> kick_succeeds sample_env (member_id target)
   \<and> filter is_mutation (emitted idle (kickCmd sample_env sample_msg target (Some ''spam'') idle))
       = [MemberKick ''200'' (Some ''spam'')]
   \<and> casesIn (emitted idle (kickCmd sample_env sample_msg target (Some ''spam'') idle))
       = [commandCase sample_msg ''200'' Kick (Some ''spam'')]"
proof -
  have auth: "canActOn sample_env (msg_member sample_msg) target"
    by (simp add: sample_env_def)
  have who: "member_id target = ''200''"
    by (simp add: member_id_def target_def)
  show ?thesis
    by (simp add: kickCmd_emitted [OF auth] notificationAttempts_only_notify who
        commandCase_def auth)
       (simp add: sample_env_def)
qed

text \<open>
  The reason a mute is recorded with is the reason of the command, unless the time
  argument does not parse: then the handler folds it into the reason.
\<close>

lemma muteReasonOf_plain:
  "\<not> truthy time \<or> muteTimeOf e time \<noteq> None \<Longrightarrow> muteReasonOf e time rsn0 = rsn0"
  by (auto simp: muteReasonOf_def split: option.splits)

text \<open>
  C5. The cases and the notes a mute command creates. When the "mute" action answers with
  a mute that already carries a case id, no case is created and the old case gets exactly
  one note if the reason is non-empty, none otherwise; when the mute carries no case id,
  exactly one Mute case is created and no note; when the action fails, or the command is
  refused (no mute role configured, or the moderator may not act on the member), neither.
  So a Mute case is created only when the mute on record has no case id.
\<close>

theorem muteCmd_reuses_open_case:
  "(casesIn (emitted s (muteCmd e msg member time rsn0 s)),
    filter is_note (emitted s (muteCmd e msg member time rsn0 s))) =
   (if truthy (mute_role (configValue e)) \<and> canActOn e (msg_member msg) member
    then
      (case mute_result e member (muteTimeOf e time) of
         None \<Rightarrow> ([], [])
       | Some mute \<Rightarrow>
           (case case_id mute of
              Some old \<Rightarrow>
                ([], if truthy (muteReasonOf e time rsn0)
                     then [CreateCaseNote old (user_id (author msg))
                             (orEmpty (muteReasonOf e time rsn0))]
                     else [])
            | None \<Rightarrow>
                ([commandCase msg (member_id member) Mute (muteReasonOf e time rsn0)], [])))
    else ([], []))"
proof (cases "truthy (mute_role (configValue e)) \<and> canActOn e (msg_member msg) member")
  case True
  then have role: "truthy (mute_role (configValue e))"
    and auth: "canActOn e (msg_member msg) member"
    by simp_all
  show ?thesis
    by (simp add: muteCmd_emitted [OF role auth] notificationAttempts_only_notify
        commandCase_def role auth split: option.splits)
next
  case False
  then show ?thesis
    by (auto simp: muteCmd_def emitted_def emit_def)
qed

theorem muteCmd_reuses_open_case_witness:
  "truthy (mute_role (configValue sample_env))
   \<and> canActOn sample_env (msg_member sample_msg) target
   \<and> mute_result sample_env target (muteTimeOf sample_env None) = Some \<lparr>case_id = Some 7\<rparr>
   \<and> casesIn (emitted idle (muteCmd sample_env sample_msg target None (Some ''spam'') idle)) = []
   \<and> filter is_note (emitted idle (muteCmd sample_env sample_msg target None (Some ''spam'') idle))
       = [CreateCaseNote 7 ''100'' ''spam'']"
proof -
  have role: "truthy (mute_role (configValue sample_env))"
    by (simp add: sample_env_def sample_config_def)
  have auth: "canActOn sample_env (msg_member sample_msg) target"
    by (simp add: sample_env_def)
  have live: "mute_result sample_env target (muteTimeOf sample_env None)
                = Some \<lparr>case_id = Some 7\<rparr>"
    by (simp add: sample_env_def)
  have rsn: "muteReasonOf sample_env None (Some ''spam'') = Some ''spam''"
    by (simp add: muteReasonOf_def)
  have mod: "user_id (author sample_msg) = ''100''"
    by (simp add: sample_msg_def moderator_def)
  show ?thesis
    using role auth live
      muteCmd_reuses_open_case [of idle sample_env sample_msg target None "Some ''spam''"]
    by (simp add: rsn mod orEmpty_def)
qed

section \<open>The batch runner\<close>




text \<open>
  C7. A massban with a target that is a member of the guild and on which the moderator
  may not act issues no platform call, creates no case and registers no suppression:
  the ledger is as before and neither a timer nor a log suppression is set.
\<close>

theorem massbanCmd_precheck_aborts:
  assumes "list_ex (cannotActOnId e msg) userIds"
  shows "filter is_mutation (emitted s (massbanCmd e msg userIds s)) = []
         \<and> casesIn (emitted s (massbanCmd e msg userIds s)) = []
         \<and> filter is_suppression (emitted s (massbanCmd e msg userIds s)) = []
         \<and> ignoredEvents (massbanCmd e msg userIds s) = ignoredEvents s"
  using assms
  by (simp add: massbanCmd_def verifyAll_iff emit_def emitted_def Let_def)

theorem massbanCmd_precheck_aborts_witness:
  "list_ex (cannotActOnId protected_env sample_msg) [''A'', ''B'', ''C'']
   \<and> emitted idle (massbanCmd protected_env sample_msg [''A'', ''B'', ''C''] idle)
       = [CreateMessage ''Ban reason? `cancel` to cancel'', WaitForReply,
          CreateMessage
            ''error: Cannot massban one or more users: insufficient permissions'']
   \<and> filter is_mutation
         (emitted idle (massbanCmd protected_env sample_msg [''A'', ''B'', ''C''] idle)) = []
   \<and> casesIn (emitted idle (massbanCmd protected_env sample_msg [''A'', ''B'', ''C''] idle)) = []
   \<and> filter is_suppression
         (emitted idle (massbanCmd protected_env sample_msg [''A'', ''B'', ''C''] idle)) = []
   \<and> ignoredEvents (massbanCmd protected_env sample_msg [''A'', ''B'', ''C''] idle) = []"
proof -
  have h: "list_ex (cannotActOnId protected_env sample_msg) [''A'', ''B'', ''C'']"
    by (simp add: cannotActOnId_def protected_env_def)
  have run: "emitted idle (massbanCmd protected_env sample_msg [''A'', ''B'', ''C''] idle)
       = [CreateMessage ''Ban reason? `cancel` to cancel'', WaitForReply,
          CreateMessage
            ''error: Cannot massban one or more users: insufficient permissions'']"
    by (simp add: massbanCmd_def cannotActOnId_def emit_def emitted_def Let_def idle_def
        protected_env_def sample_env_def sample_utils_def orEmpty_def)
  have ledger: "ignoredEvents idle = []"
    by (simp add: idle_def)
  show ?thesis
    using h run massbanCmd_precheck_aborts [OF h, of idle]
    by (simp add: ledger)
qed

section \<open>Notification and the irreversible call\<close>

text \<open>
  C8. A kick or ban command that passes the authority check issues exactly one platform
  mutation, and no notification attempt comes at or after it in the trace: every attempt
  of \<open>tryToMessageUser\<close> (made when a reason is given) precedes the kick or ban call.
\<close>

theorem notification_precedes_kick_and_ban:
  assumes "canActOn e (msg_member msg) member"
  shows "filter is_mutation (emitted s (kickCmd e msg member rsn s))
           = [MemberKick (member_id member) rsn]
         \<and> filter is_notification
             (dropWhile (\<lambda>x. \<not> is_mutation x) (emitted s (kickCmd e msg member rsn s))) = []
         \<and> filter is_notification (emitted s (kickCmd e msg member rsn s))
           = (if truthy rsn
              then notificationAttempts e (user member) (kickMessage e rsn)
                     (dm_on_kick (configValue e)) (message_on_kick (configValue e))
              else [])
         \<and> filter is_mutation (emitted s (banCmd e msg member rsn s))
           = [BanMember (member_id member) (Some 1) rsn]
         \<and> filter is_notification
             (dropWhile (\<lambda>x. \<not> is_mutation x) (emitted s (banCmd e msg member rsn s))) = []
         \<and> filter is_notification (emitted s (banCmd e msg member rsn s))
           = (if truthy rsn
              then notificationAttempts e (user member) (banMessage e rsn)
                     (dm_on_ban (configValue e)) (message_on_ban (configValue e))
              else [])"
proof -
  have skip: "\<And>a b c d ys.
      dropWhile (\<lambda>x. \<not> is_mutation x) (notificationAttempts e a b c d @ ys)
        = dropWhile (\<lambda>x. \<not> is_mutation x) ys"
    by (rule dropWhile_skip) (rule notificationAttempts_only_notify)
  have kick: "filter is_mutation (emitted s (kickCmd e msg member rsn s))
                = [MemberKick (member_id member) rsn]
              \<and> filter is_notification
                  (dropWhile (\<lambda>x. \<not> is_mutation x) (emitted s (kickCmd e msg member rsn s)))
                = []
              \<and> filter is_notification (emitted s (kickCmd e msg member rsn s))
                = (if truthy rsn
                   then notificationAttempts e (user member) (kickMessage e rsn)
                          (dm_on_kick (configValue e)) (message_on_kick (configValue e))
                   else [])"
    unfolding kickCmd_emitted [OF assms] kickMessage_def
    by (simp add: notificationAttempts_only_notify skip)
  have ban: "filter is_mutation (emitted s (banCmd e msg member rsn s))
                = [BanMember (member_id member) (Some 1) rsn]
              \<and> filter is_notification
                  (dropWhile (\<lambda>x. \<not> is_mutation x) (emitted s (banCmd e msg member rsn s)))
                = []
              \<and> filter is_notification (emitted s (banCmd e msg member rsn s))
                = (if truthy rsn
                   then notificationAttempts e (user member) (banMessage e rsn)
                          (dm_on_ban (configValue e)) (message_on_ban (configValue e))
                   else [])"
    unfolding banCmd_emitted [OF assms] banMessage_def
    by (simp add: notificationAttempts_only_notify skip)
  from kick ban show ?thesis by simp
qed

theorem notification_precedes_kick_and_ban_witness:
  "canActOn dm_env (msg_member sample_msg) target
   \<and> filter is_mutation (emitted idle (kickCmd dm_env sample_msg target (Some ''spam'') idle))
       = [MemberKick ''200'' (Some ''spam'')]
   \<and> filter is_notification
        (dropWhile (\<lambda>x. \<not> is_mutation x)
           (emitted idle (kickCmd dm_env sample_msg target (Some ''spam'') idle))) = []
   \<and> filter is_notification (emitted idle (kickCmd dm_env sample_msg target (Some ''spam'') idle))
       = [SendDM ''200'' ''You have been kicked from {guildName}. Reason given: {reason}'']
   \<and> filter is_mutation (emitted idle (banCmd dm_env sample_msg target (Some ''spam'') idle))
       = [BanMember ''200'' (Some 1) (Some ''spam'')]
   \<and> filter is_notification
        (dropWhile (\<lambda>x. \<not> is_mutation x)
           (emitted idle (banCmd dm_env sample_msg target (Some ''spam'') idle))) = []
   \<and> filter is_notification (emitted idle (banCmd dm_env sample_msg target (Some ''spam'') idle))
       = [SendDM ''200'' ''You have been banned from {guildName}. Reason given: {reason}'']"
proof -
  have auth: "canActOn dm_env (msg_member sample_msg) target"
    by (simp add: dm_env_def sample_env_def)
  have who: "member_id target = ''200''"
    by (simp add: member_id_def target_def)
  have kick_dm: "notificationAttempts dm_env (user target) (kickMessage dm_env (Some ''spam''))
                   (dm_on_kick (configValue dm_env)) (message_on_kick (configValue dm_env))
                 = [SendDM ''200''
                      ''You have been kicked from {guildName}. Reason given: {reason}'']"
    by (simp add: notificationAttempts_def tryToMessageUser_def kickMessage_def emit_def
        dm_env_def sample_env_def sample_config_def sample_utils_def target_def)
  have ban_dm: "notificationAttempts dm_env (user target) (banMessage dm_env (Some ''spam''))
                   (dm_on_ban (configValue dm_env)) (message_on_ban (configValue dm_env))
                 = [SendDM ''200''
                      ''You have been banned from {guildName}. Reason given: {reason}'']"
    by (simp add: notificationAttempts_def tryToMessageUser_def banMessage_def emit_def
        dm_env_def sample_env_def sample_config_def sample_utils_def target_def)
  note inst = notification_precedes_kick_and_ban [OF auth, of idle "Some ''spam''",
      unfolded who kick_dm ban_dm]
  show ?thesis
    using auth inst by simp
qed

text \<open>
  C9, as the handlers have it. For kick and ban the case is created and the operator gets
  the success message whether or not the target could be messaged; a failed notification
  only adds "(failed to message user)" to that message. The same holds for a mute that
  opens a fresh case (there the case is created before the notification is attempted).
  A warn is different: when the notification fails the handler asks the operator whether
  to log the warning anyway, and the case is created only if the answer is the check mark.
\<close>

theorem failed_notification_and_case_creation:
  assumes "canActOn e (msg_member msg) member"
  shows "casesIn (emitted s (kickCmd e msg member rsn s))
           = [commandCase msg (member_id member) Kick rsn]
         \<and> filter is_operator_message (emitted s (kickCmd e msg member rsn s))
           = [CreateMessage (successMessage (util e)
                (''Kicked **'' @ userTag (user member) @ ''**''
                 @ (if truthy rsn
                       \<and> \<not> messageSentOf e (user member) (kickMessage e rsn)
                             (dm_on_kick (configValue e)) (message_on_kick (configValue e))
                    then '' (failed to message user)'' else [])))]
         \<and> casesIn (emitted s (banCmd e msg member rsn s))
           = [commandCase msg (member_id member) Ban rsn]
         \<and> filter is_operator_message (emitted s (banCmd e msg member rsn s))
           = [CreateMessage (successMessage (util e)
                (''Banned **'' @ userTag (user member) @ ''**''
                 @ (if truthy rsn
                       \<and> \<not> messageSentOf e (user member) (banMessage e rsn)
                             (dm_on_ban (configValue e)) (message_on_ban (configValue e))
                    then '' (failed to message user)'' else [])))]
         \<and> (truthy (mute_role (configValue e))
              \<and> mute_result e member (muteTimeOf e time) = Some mute
              \<and> case_id mute = None
            \<longrightarrow> casesIn (emitted s (muteCmd e msg member time rsn s))
                  = [commandCase msg (member_id member) Mute (muteReasonOf e time rsn)]
                \<and> filter is_operator_message (emitted s (muteCmd e msg member time rsn s))
                  = [CreateMessage (successMessage (util e)
                       ((if truthyTime (muteTimeOf e time)
                         then ''Muted **'' @ userTag (user member) @ ''** for ''
                                @ orEmpty (timeUntilUnmuteOf e (muteTimeOf e time))
                         else ''Muted **'' @ userTag (user member) @ ''** indefinitely'')
                        @ (if truthy (muteReasonOf e time rsn)
                              \<and> \<not> messageSentOf e (user member) (muteMessage e time rsn)
                                    (dm_on_mute (configValue e))
                                    (message_on_mute (configValue e))
                           then '' (failed to message user)'' else [])))])
         \<and> casesIn (emitted s (warnCmd e msg member w s))
           = (if messageSentOf e (user member) (warnMessage e w)
                   (dm_on_warn (configValue e)) (message_on_warn (configValue e))
                 \<or> reaction e = Some CheckMark
              then [commandCase msg (member_id member) Warn (Some w)]
              else [])"
proof -
  have kick: "casesIn (emitted s (kickCmd e msg member rsn s))
           = [commandCase msg (member_id member) Kick rsn]
         \<and> filter is_operator_message (emitted s (kickCmd e msg member rsn s))
           = [CreateMessage (successMessage (util e)
                (''Kicked **'' @ userTag (user member) @ ''**''
                 @ (if truthy rsn
                       \<and> \<not> messageSentOf e (user member) (kickMessage e rsn)
                             (dm_on_kick (configValue e)) (message_on_kick (configValue e))
                    then '' (failed to message user)'' else [])))]"
    unfolding kickCmd_emitted [OF assms] kickMessage_def commandCase_def
    by (simp add: notificationAttempts_only_notify)
  have ban: "casesIn (emitted s (banCmd e msg member rsn s))
           = [commandCase msg (member_id member) Ban rsn]
         \<and> filter is_operator_message (emitted s (banCmd e msg member rsn s))
           = [CreateMessage (successMessage (util e)
                (''Banned **'' @ userTag (user member) @ ''**''
                 @ (if truthy rsn
                       \<and> \<not> messageSentOf e (user member) (banMessage e rsn)
                             (dm_on_ban (configValue e)) (message_on_ban (configValue e))
                    then '' (failed to message user)'' else [])))]"
    unfolding banCmd_emitted [OF assms] banMessage_def commandCase_def
    by (simp add: notificationAttempts_only_notify)
  have mute: "casesIn (emitted s (muteCmd e msg member time rsn s))
                  = [commandCase msg (member_id member) Mute (muteReasonOf e time rsn)]
                \<and> filter is_operator_message (emitted s (muteCmd e msg member time rsn s))
                  = [CreateMessage (successMessage (util e)
                       ((if truthyTime (muteTimeOf e time)
                         then ''Muted **'' @ userTag (user member) @ ''** for ''
                                @ orEmpty (timeUntilUnmuteOf e (muteTimeOf e time))
                         else ''Muted **'' @ userTag (user member) @ ''** indefinitely'')
                        @ (if truthy (muteReasonOf e time rsn)
                              \<and> \<not> messageSentOf e (user member) (muteMessage e time rsn)
                                    (dm_on_mute (configValue e))
                                    (message_on_mute (configValue e))
                           then '' (failed to message user)'' else [])))]"
    if role: "truthy (mute_role (configValue e))"
      and live: "mute_result e member (muteTimeOf e time) = Some mute"
      and fresh: "case_id mute = None"
    unfolding muteCmd_emitted [OF role assms] muteMessage_def commandCase_def
    by (simp add: notificationAttempts_only_notify live fresh)
  have warn: "casesIn (emitted s (warnCmd e msg member w s))
           = (if messageSentOf e (user member) (warnMessage e w)
                   (dm_on_warn (configValue e)) (message_on_warn (configValue e))
                 \<or> reaction e = Some CheckMark
              then [commandCase msg (member_id member) Warn (Some w)]
              else [])"
    unfolding warnCmd_emitted [OF assms] warnMessage_def commandCase_def
    by (simp add: notificationAttempts_only_notify)
  from kick ban mute warn show ?thesis by blast
qed

theorem failed_notification_and_case_creation_witness:
  "canActOn dm_env (msg_member sample_msg) target
   \<and> \<not> messageSentOf dm_env (user target) (kickMessage dm_env (Some ''spam''))
         (dm_on_kick (configValue dm_env)) (message_on_kick (configValue dm_env))
   \<and> casesIn (emitted idle (kickCmd dm_env sample_msg target (Some ''spam'') idle))
       = [commandCase sample_msg ''200'' Kick (Some ''spam'')]
   \<and> filter is_operator_message
        (emitted idle (kickCmd dm_env sample_msg target (Some ''spam'') idle))
       = [CreateMessage ''ok: Kicked **troll#0002** (failed to message user)'']
   \<and> truthy (mute_role (configValue dm_env))
   \<and> mute_result dm_env target (muteTimeOf dm_env None) = Some \<lparr>case_id = None\<rparr>
   \<and> casesIn (emitted idle (muteCmd dm_env sample_msg target None (Some ''spam'') idle))
       = [commandCase sample_msg ''200'' Mute (Some ''spam'')]
   \<and> filter is_operator_message
        (emitted idle (muteCmd dm_env sample_msg target None (Some ''spam'') idle))
       = [CreateMessage ''ok: Muted **troll#0002** indefinitely (failed to message user)'']"
proof -
  have auth: "canActOn dm_env (msg_member sample_msg) target"
    by (simp add: dm_env_def sample_env_def)
  have who: "member_id target = ''200''"
    by (simp add: member_id_def target_def)
  have tag: "userTag (user target) = ''troll#0002''"
    by (simp add: userTag_def target_def)
  have kick_dm: "\<not> messageSentOf dm_env (user target) (kickMessage dm_env (Some ''spam''))
         (dm_on_kick (configValue dm_env)) (message_on_kick (configValue dm_env))"
    by (simp add: messageSentOf_def tryToMessageUser_def dm_env_def sample_env_def
        sample_config_def)
  have role: "truthy (mute_role (configValue dm_env))"
    by (simp add: dm_env_def sample_env_def sample_config_def)
  have live: "mute_result dm_env target (muteTimeOf dm_env None) = Some \<lparr>case_id = None\<rparr>"
    by (simp add: dm_env_def sample_env_def)
  have mt: "muteTimeOf dm_env None = None"
    by (simp add: muteTimeOf_def)
  have rsn: "muteReasonOf dm_env None (Some ''spam'') = Some ''spam''"
    by (simp add: muteReasonOf_def)
  have mute_dm: "\<not> messageSentOf dm_env (user target) (muteMessage dm_env None (Some ''spam''))
         (dm_on_mute (configValue dm_env)) (message_on_mute (configValue dm_env))"
    by (simp add: messageSentOf_def tryToMessageUser_def dm_env_def sample_env_def
        sample_config_def)
  have ok_msg: "successMessage (util dm_env) = (\<lambda>str. ''ok: '' @ str)"
    by (simp add: dm_env_def sample_env_def sample_utils_def)
  note inst = failed_notification_and_case_creation [OF auth, of idle "Some ''spam''"
      None "\<lparr>case_id = None\<rparr>" "''spam''"]
  show ?thesis
    using auth kick_dm role live inst
    by (simp add: who tag mt rsn mute_dm ok_msg truthyTime_def)
qed

text \<open>
  C9 as stated fails for warn: the direct message is not delivered, the operator answers
  the prompt with the cross, and no case is created.
\<close>

theorem warnCmd_declined_after_failed_notification_no_case:
  "canActOn sample_env (msg_member sample_msg) target
   \<and> \<not> messageSentOf sample_env (user target) (warnMessage sample_env ''spam'')
         (dm_on_warn (configValue sample_env)) (message_on_warn (configValue sample_env))
   \<and> reaction sample_env = Some CrossMark
   \<and> casesIn (emitted idle (warnCmd sample_env sample_msg target ''spam'' idle)) = []"
proof -
  have auth: "canActOn sample_env (msg_member sample_msg) target"
    by (simp add: sample_env_def)
  have dm: "\<not> messageSentOf sample_env (user target) (warnMessage sample_env ''spam'')
         (dm_on_warn (configValue sample_env)) (message_on_warn (configValue sample_env))"
    by (simp add: messageSentOf_def tryToMessageUser_def sample_env_def sample_config_def)
  have declined: "reaction sample_env = Some CrossMark"
    by (simp add: sample_env_def)
  show ?thesis
    using auth dm declined
    by (simp add: warnCmd_emitted [OF auth] notificationAttempts_only_notify
        warnMessage_def [symmetric])
qed

end
